theory Spec2Isabelle
  imports Complex_Main
begin

section \<open>Python values of the weather proxy\<close>

text \<open>
  A model of \<open>weather_proxy.py\<close>. Each function of the module keeps its name, without
  the leading underscore; a block of \<open>_fetch_from_nws\<close> that is a definition of its own
  names the lines it stands for.

  The values \<open>json.load\<close> produces. A Python \<open>str\<close> is modelled as a HOL string, that
  is a sequence of characters with code points below 256 (the range an HTTP header value
  can carry); a \<open>dict\<close> is an association list in insertion order; a \<open>float\<close> is
  idealised as a real number.
\<close>

datatype json =
    JNull
  | JBool bool
  | JInt int
  | JFloat real
  | JStr string
  | JArr "json list"
  | JObj "(string \<times> json) list"

text \<open>
  The exceptions that can leave a function of the module. The four classes that
  \<open>do_GET\<close> renders carry \<open>str(exc)\<close>; the remaining ones are never rendered by the
  program and carry nothing.
\<close>

datatype exc =
    ProxyError string
  | URLError string
  | TimeoutError string
  | ValueError string
  | AttributeError
  | TypeError
  | KeyError
  | IndexError
  | OtherError

text \<open>Truth value of a Python object (\<open>if x\<close>, \<open>not x\<close>, \<open>x or y\<close>).\<close>

fun truthy :: "json \<Rightarrow> bool" where
  "truthy JNull = False"
| "truthy (JBool b) = b"
| "truthy (JInt i) = (i \<noteq> 0)"
| "truthy (JFloat r) = (r \<noteq> 0)"
| "truthy (JStr s) = (s \<noteq> [])"
| "truthy (JArr xs) = (xs \<noteq> [])"
| "truthy (JObj kvs) = (kvs \<noteq> [])"

text \<open>\<open>x or d\<close>\<close>

definition py_or :: "json \<Rightarrow> json \<Rightarrow> json" where
  "py_or x d = (if truthy x then x else d)"

text \<open>
  \<open>x.get(key, default)\<close>: only a \<open>dict\<close> has the method, every other value raises
  \<open>AttributeError\<close>.
\<close>

fun py_get_default :: "json \<Rightarrow> string \<Rightarrow> json \<Rightarrow> exc + json" where
  "py_get_default (JObj kvs) k d = Inr (case map_of kvs k of None \<Rightarrow> d | Some v \<Rightarrow> v)"
| "py_get_default _ k d = Inl AttributeError"

text \<open>\<open>x.get(key)\<close>\<close>

definition py_get :: "json \<Rightarrow> string \<Rightarrow> exc + json" where
  "py_get x k = py_get_default x k JNull"

text \<open>\<open>d[key] = v\<close> on a dict: an existing key keeps its position, a new key goes last.\<close>

fun dict_set :: "(string \<times> json) list \<Rightarrow> string \<Rightarrow> json \<Rightarrow> (string \<times> json) list" where
  "dict_set [] k v = [(k, v)]"
| "dict_set ((k', v') # kvs) k v =
     (if k' = k then (k, v) # kvs else (k', v') # dict_set kvs k v)"

text \<open>
  \<open>str.isspace\<close> on the code points below 256, and \<open>str.strip()\<close>, which removes
  such characters from both ends.
\<close>

definition isspace :: "char \<Rightarrow> bool" where
  "isspace c = (of_char c \<in> {9, 10, 11, 12, 13, 28, 29, 30, 31, 32, 133, 160 :: nat})"

definition strip :: "string \<Rightarrow> string" where
  "strip s = rev (dropWhile isspace (rev (dropWhile isspace s)))"

section \<open>User-Agent\<close>

text \<open>
  \<open>_format_user_agent(raw)\<close>. The argument may be \<open>None\<close>; \<open>raw or ""\<close> turns
  \<open>None\<close> (and the empty string) into the empty string.
\<close>

definition format_user_agent :: "string option \<Rightarrow> string" where
  "format_user_agent raw0 =
     (let raw = strip (case raw0 of None \<Rightarrow> [] | Some s \<Rightarrow> if s = [] then [] else s)
      in if raw = [] then ''LegacyDashboardProxy/1.0 (contact unavailable)''
         else if CHR ''/'' \<notin> set raw \<and> CHR ''('' \<notin> set raw
              then ''LegacyDashboardProxy/1.0 ('' @ raw @ '')''
         else raw)"

section \<open>The environment\<close>

text \<open>
  What the module reaches outside itself: the file \<open>config.json\<close>, the network behind
  \<open>urllib.request.urlopen\<close>, and the library functions whose text is not part of the
  repository. \<open>'w\<close> is the state of the outside world; only a request changes it.
  \<^item> \<open>read_config w\<close> is \<open>None\<close> when \<open>os.path.exists(CONFIG_PATH)\<close> is false;
    otherwise it is what \<open>open\<close> and \<open>json.load\<close> give, a document or an exception.
  \<^item> \<open>urlopen w url hs\<close> is \<open>Request(url)\<close>, the headers \<open>hs\<close>,
    \<open>urlopen(request, timeout=20)\<close> and \<open>json.load(response)\<close> together: the decoded
    body or the exception raised, and the world afterwards. The URL is whatever Python
    value the caller passes.
  \<^item> \<open>float_of_str\<close> and \<open>float_of_int\<close> are \<open>float(x)\<close> on a string and on an
    integer, \<open>format_float\<close> is the text an f-string gives a float, \<open>urljoin\<close> is
    \<open>urllib.parse.urljoin\<close>, \<open>json_dumps\<close> is \<open>json.dumps\<close>.
\<close>

record 'w os =
  read_config :: "'w \<Rightarrow> (exc + json) option"
  urlopen :: "'w \<Rightarrow> json \<Rightarrow> (string \<times> string) list \<Rightarrow> (exc + json) \<times> 'w"
  float_of_str :: "string \<Rightarrow> exc + real"
  float_of_int :: "int \<Rightarrow> exc + real"
  format_float :: "real \<Rightarrow> string"
  urljoin :: "string \<Rightarrow> string \<Rightarrow> exc + string"
  json_dumps :: "json \<Rightarrow> string"

section \<open>Configuration\<close>

text \<open>\<open>float(x)\<close> on a value read from JSON.\<close>

fun py_float :: "'w os \<Rightarrow> json \<Rightarrow> exc + real" where
  "py_float os (JInt i) = float_of_int os i"
| "py_float os (JFloat r) = Inr r"
| "py_float os (JBool b) = Inr (if b then 1 else 0)"
| "py_float os (JStr s) = float_of_str os s"
| "py_float os _ = Inl TypeError"

text \<open>\<open>(x or "").strip()\<close>: a true value that is not a string has no \<open>strip\<close>.\<close>

definition contact_of :: "json \<Rightarrow> exc + string" where
  "contact_of x =
     (case py_or x (JStr []) of JStr s \<Rightarrow> Inr (strip s) | _ \<Rightarrow> Inl AttributeError)"

text \<open>\<open>_load_config()\<close>\<close>

definition load_config :: "'w os \<Rightarrow> 'w \<Rightarrow> exc + (real \<times> real \<times> string)" where
  "load_config os w =
     (case read_config os w of
        None \<Rightarrow> Inl (ProxyError ''config.json not found alongside weather_proxy.py'')
      | Some (Inl e) \<Rightarrow> Inl e
      | Some (Inr data) \<Rightarrow>
     (case py_get_default data ''weather'' (JObj []) of Inl e \<Rightarrow> Inl e | Inr weather \<Rightarrow>
     (case py_get weather ''latitude'' of Inl e \<Rightarrow> Inl e | Inr latitude \<Rightarrow>
     (case py_get weather ''longitude'' of Inl e \<Rightarrow> Inl e | Inr longitude \<Rightarrow>
     (case py_get weather ''userAgent'' of Inl e \<Rightarrow> Inl e | Inr ua \<Rightarrow>
     (case contact_of ua of Inl e \<Rightarrow> Inl e | Inr contact \<Rightarrow>
        if latitude = JNull \<or> longitude = JNull
        then Inl (ProxyError ''config.json must supply weather.latitude and weather.longitude'')
        else
     (case py_float os latitude of Inl e \<Rightarrow> Inl e | Inr lat \<Rightarrow>
     (case py_float os longitude of Inl e \<Rightarrow> Inl e | Inr lon \<Rightarrow>
        Inr (lat, lon, contact)))))))))"

section \<open>The fetch pipeline\<close>

text \<open>
  \<open>_make_request(url, headers)\<close>: the headers whose value is not \<open>None\<close> are added to
  the request.
\<close>

definition make_request ::
  "'w os \<Rightarrow> 'w \<Rightarrow> json \<Rightarrow> (string \<times> string option) list \<Rightarrow> (exc + json) \<times> 'w" where
  "make_request os w url headers =
     urlopen os w url (concat (map (\<lambda>(k, v). case v of None \<Rightarrow> [] | Some x \<Rightarrow> [(k, x)]) headers))"

text \<open>The \<open>headers\<close> dictionary of \<open>_fetch_from_nws\<close> (lines 73 to 77).\<close>

definition request_headers :: "string \<Rightarrow> (string \<times> string option) list" where
  "request_headers contact =
     [(''Accept'', Some ''application/geo+json''),
      (''User-Agent'', Some (format_user_agent (Some contact))),
      (''From'', if contact = [] then None else Some contact)]"

text \<open>\<open>point_url\<close> (line 79).\<close>

definition point_url :: "'w os \<Rightarrow> real \<Rightarrow> real \<Rightarrow> string" where
  "point_url os latitude longitude =
     ''https://api.weather.gov/points/'' @ format_float os latitude @ '','' @ format_float os longitude"

text \<open>
  Lines 82 to 87: the forecast URL and the stations URL of the points response, or the
  \<open>ProxyError\<close> when the forecast URL is missing.
\<close>

definition point_urls :: "json \<Rightarrow> exc + (json \<times> json)" where
  "point_urls point_data =
     (case py_get point_data ''properties'' of Inl e \<Rightarrow> Inl e | Inr p \<Rightarrow>
     (case py_get (py_or p (JObj [])) ''forecast'' of Inl e \<Rightarrow> Inl e | Inr forecast_url \<Rightarrow>
     (case py_get (py_or p (JObj [])) ''observationStations'' of Inl e \<Rightarrow> Inl e | Inr stations_url \<Rightarrow>
        if \<not> truthy forecast_url
        then Inl (ProxyError ''Forecast URL unavailable for configured coordinates'')
        else Inr (forecast_url, stations_url))))"

text \<open>
  Lines 90 to 96: \<open>forecast_data\<close> after the periods have been cut. When \<open>periods\<close> is a
  non-empty list, a copy of \<open>properties\<close> with \<open>periods[:6]\<close> replaces
  \<open>forecast_data["properties"]\<close>; otherwise \<open>forecast_data\<close> is left as it is.
\<close>

definition trim_forecast :: "json \<Rightarrow> exc + json" where
  "trim_forecast forecast_data =
     (case py_get forecast_data ''properties'' of Inl e \<Rightarrow> Inl e | Inr p \<Rightarrow>
     (case py_get (py_or p (JObj [])) ''periods'' of Inl e \<Rightarrow> Inl e | Inr periods \<Rightarrow>
     (case (forecast_data, py_or p (JObj []), periods) of
        (JObj fd, JObj properties, JArr ps) \<Rightarrow>
          if ps \<noteq> []
          then Inr (JObj (dict_set fd ''properties''
                            (JObj (dict_set properties ''periods'' (JArr (take 6 ps))))))
          else Inr forecast_data
      | _ \<Rightarrow> Inr forecast_data)))"

text \<open>
  \<open>features[0]\<close>: the keys of a dictionary read from JSON are strings, so \<open>0\<close> is never
  one of them.
\<close>

fun first_item :: "json \<Rightarrow> exc + json" where
  "first_item (JArr (x # xs)) = Inr x"
| "first_item (JArr []) = Inl IndexError"
| "first_item (JStr (c # cs)) = Inr (JStr [c])"
| "first_item (JStr []) = Inl IndexError"
| "first_item (JObj kvs) = Inl KeyError"
| "first_item _ = Inl TypeError"

text \<open>\<open>latest_url + "/"\<close>\<close>

fun add_slash :: "json \<Rightarrow> exc + string" where
  "add_slash (JStr s) = Inr (s @ ''/'')"
| "add_slash _ = Inl TypeError"

text \<open>The classes of the \<open>except\<close> clause at line 108.\<close>

fun caught_by_observation :: "exc \<Rightarrow> bool" where
  "caught_by_observation (URLError m) = True"
| "caught_by_observation (ProxyError m) = True"
| "caught_by_observation (TimeoutError m) = True"
| "caught_by_observation (ValueError m) = True"
| "caught_by_observation _ = False"

text \<open>
  Lines 98 to 109: the value of the variable \<open>observation\<close> at line 111, \<open>JNull\<close> for
  \<open>None\<close>. Only the last request is inside the \<open>try\<close>.
\<close>

definition fetch_observation ::
  "'w os \<Rightarrow> 'w \<Rightarrow> json \<Rightarrow> (string \<times> string option) list \<Rightarrow> (exc + json) \<times> 'w" where
  "fetch_observation os w stations_url headers =
     (if \<not> truthy stations_url then (Inr JNull, w)
      else
     (case make_request os w stations_url headers of
        (Inl e, w1) \<Rightarrow> (Inl e, w1)
      | (Inr stations_data, w1) \<Rightarrow>
     (case py_get stations_data ''features'' of Inl e \<Rightarrow> (Inl e, w1) | Inr f \<Rightarrow>
        if \<not> truthy (py_or f (JArr [])) then (Inr JNull, w1)
        else
     (case first_item (py_or f (JArr [])) of Inl e \<Rightarrow> (Inl e, w1) | Inr station \<Rightarrow>
     (case py_get station ''id'' of Inl e \<Rightarrow> (Inl e, w1) | Inr latest_url \<Rightarrow>
        if \<not> truthy latest_url then (Inr JNull, w1)
        else
     (case add_slash latest_url of Inl e \<Rightarrow> (Inl e, w1) | Inr base \<Rightarrow>
     (case urljoin os base ''observations/latest'' of Inl e \<Rightarrow> (Inl e, w1) | Inr u \<Rightarrow>
     (case make_request os w1 (JStr u) headers of
        (Inl e, w2) \<Rightarrow> if caught_by_observation e then (Inr JNull, w2) else (Inl e, w2)
      | (Inr observation, w2) \<Rightarrow> (Inr observation, w2)))))))))"

text \<open>Lines 111 to 114: the returned dictionary.\<close>

definition build_payload :: "json \<Rightarrow> json \<Rightarrow> exc + json" where
  "build_payload forecast_data observation =
     (case py_get_default forecast_data ''properties'' (JObj []) of Inl e \<Rightarrow> Inl e | Inr forecast \<Rightarrow>
     (case (case observation of JObj kvs \<Rightarrow> py_get observation ''properties'' | _ \<Rightarrow> Inr JNull) of
        Inl e \<Rightarrow> Inl e
      | Inr obs \<Rightarrow> Inr (JObj [(''forecast'', forecast), (''observation'', obs)])))"

text \<open>
  Lines 71 to 87 of \<open>_fetch_from_nws()\<close>: the configuration, the headers, the points
  request and its two URLs. The result is the forecast URL, the stations URL and the
  headers, or the exception, and the world afterwards.
\<close>

definition fetch_points ::
  "'w os \<Rightarrow> 'w \<Rightarrow> (exc + (json \<times> json \<times> (string \<times> string option) list)) \<times> 'w" where
  "fetch_points os w =
     (case load_config os w of Inl e \<Rightarrow> (Inl e, w) | Inr (latitude, longitude, contact) \<Rightarrow>
     (case make_request os w (JStr (point_url os latitude longitude)) (request_headers contact) of
        (Inl e, w1) \<Rightarrow> (Inl e, w1)
      | (Inr point_data, w1) \<Rightarrow>
     (case point_urls point_data of
        Inl e \<Rightarrow> (Inl e, w1)
      | Inr (forecast_url, stations_url) \<Rightarrow>
          (Inr (forecast_url, stations_url, request_headers contact), w1))))"

text \<open>\<open>_fetch_from_nws()\<close>: the payload or the exception, and the world afterwards.\<close>

definition fetch_from_nws :: "'w os \<Rightarrow> 'w \<Rightarrow> (exc + json) \<times> 'w" where
  "fetch_from_nws os w =
     (case fetch_points os w of
        (Inl e, w1) \<Rightarrow> (Inl e, w1)
      | (Inr (forecast_url, stations_url, headers), w1) \<Rightarrow>
     (case make_request os w1 forecast_url headers of
        (Inl e, w2) \<Rightarrow> (Inl e, w2)
      | (Inr forecast_data, w2) \<Rightarrow>
     (case trim_forecast forecast_data of Inl e \<Rightarrow> (Inl e, w2) | Inr forecast_data' \<Rightarrow>
     (case fetch_observation os w2 stations_url headers of
        (Inl e, w3) \<Rightarrow> (Inl e, w3)
      | (Inr observation, w3) \<Rightarrow> (build_payload forecast_data' observation, w3)))))"

section \<open>The cache\<close>

text \<open>
  The module's globals \<open>_cache_payload\<close> and \<open>_cache_timestamp\<close>; \<open>JNull\<close> is
  \<open>None\<close>. Clock readings (\<open>time.time()\<close>) are real numbers.
\<close>

record cache =
  cache_payload :: json
  cache_timestamp :: real

definition CACHE_TTL :: real where
  "CACHE_TTL = 300"

definition cache_initial :: cache where
  "cache_initial = \<lparr>cache_payload = JNull, cache_timestamp = 0\<rparr>"

text \<open>The test of line 121.\<close>

definition cache_fresh :: "real \<Rightarrow> cache \<Rightarrow> bool" where
  "cache_fresh now c = (cache_payload c \<noteq> JNull \<and> now - cache_timestamp c < CACHE_TTL)"

text \<open>
  \<open>_get_cached_weather()\<close>, the body of \<open>with CACHE_LOCK\<close>. \<open>now\<close> is the value
  \<open>time.time()\<close> returns at line 120. The result is the payload or the exception, the
  globals and the world afterwards.
\<close>

definition get_cached_weather ::
  "'w os \<Rightarrow> real \<Rightarrow> cache \<times> 'w \<Rightarrow> (exc + json) \<times> cache \<times> 'w" where
  "get_cached_weather os now s =
     (case s of (c, w) \<Rightarrow>
        if cache_fresh now c
        then (Inr (cache_payload c), c, w)
        else
          (case fetch_from_nws os w of
             (Inl e, w') \<Rightarrow> (Inl e, c, w')
           | (Inr payload, w') \<Rightarrow>
               (Inr payload, \<lparr>cache_payload = payload, cache_timestamp = now\<rparr>, w')))"

section \<open>The request handler\<close>

text \<open>
  What \<open>do_GET\<close> hands to \<open>http.server\<close>: a call of \<open>send_error(code, message)\<close>, or
  \<open>send_response(code)\<close> with the headers and the body written.
\<close>

datatype response =
    SendError nat string
  | SendResponse nat "(string \<times> string) list" string

text \<open>\<open>path.rstrip("/")\<close>\<close>

definition rstrip_slash :: "string \<Rightarrow> string" where
  "rstrip_slash p = rev (dropWhile (\<lambda>c. c = CHR ''/'') (rev p))"

text \<open>\<open>str(n)\<close> for a length.\<close>

fun str_nat :: "nat \<Rightarrow> string" where
  "str_nat n =
     (if n < 10 then [''0123456789'' ! n]
      else str_nat (n div 10) @ [''0123456789'' ! (n mod 10)])"

declare str_nat.simps [simp del]

text \<open>
  \<open>WeatherProxyHandler.do_GET\<close> for the request path \<open>path\<close>. \<open>Inl e\<close> is an exception
  that no \<open>except\<close> clause of the handler takes. The text \<open>json.dumps\<close> returns is
  ASCII, so its UTF-8 encoding is the text itself.
\<close>

definition do_GET ::
  "'w os \<Rightarrow> string \<Rightarrow> real \<Rightarrow> cache \<times> 'w \<Rightarrow> (exc + response) \<times> cache \<times> 'w" where
  "do_GET os path now s =
     (if rstrip_slash path \<notin> {'''', ''/weather''}
      then (Inr (SendError 404 ''Not Found''), s)
      else
        (case get_cached_weather os now s of
           (Inl (ProxyError m), s') \<Rightarrow> (Inr (SendError 502 m), s')
         | (Inl (URLError m), s') \<Rightarrow> (Inr (SendError 502 (''Upstream request failed: '' @ m)), s')
         | (Inl (TimeoutError m), s') \<Rightarrow> (Inr (SendError 502 (''Upstream request failed: '' @ m)), s')
         | (Inl (ValueError m), s') \<Rightarrow> (Inr (SendError 502 (''Upstream request failed: '' @ m)), s')
         | (Inl e, s') \<Rightarrow> (Inl e, s')
         | (Inr payload, s') \<Rightarrow>
             (Inr (SendResponse 200
                     [(''Content-Type'', ''application/json; charset=utf-8''),
                      (''Cache-Control'', ''no-store''),
                      (''Content-Length'', str_nat (length (json_dumps os payload)))]
                     (json_dumps os payload)),
              s')))"

section \<open>Start-up\<close>

text \<open>
  \<open>main()\<close>: the arguments \<open>--host\<close> and \<open>--port\<close> with their defaults, then
  \<open>HTTPServer((host, port), WeatherProxyHandler)\<close> and \<open>serve_forever()\<close>. Nothing in
  \<open>main\<close> calls \<open>_load_config\<close>: the world, and with it \<open>config.json\<close>, does not
  enter the result.
\<close>

datatype server = Serving string int

definition main :: "'w os \<Rightarrow> 'w \<Rightarrow> string option \<Rightarrow> int option \<Rightarrow> server" where
  "main os w host port =
     Serving (case host of None \<Rightarrow> ''0.0.0.0'' | Some h \<Rightarrow> h)
             (case port of None \<Rightarrow> 8050 | Some p \<Rightarrow> p)"

section \<open>Concurrent callers\<close>

text \<open>
  Callers of \<open>_get_cached_weather()\<close> running in parallel. A caller is \<open>Waiting\<close> in front
  of \<open>with CACHE_LOCK\<close>, or \<open>Running now\<close> inside the block (it holds the lock and has
  read the clock at line 120), or \<open>Done r\<close> after it has left the block with the result
  or exception \<open>r\<close>. \<open>fetches\<close> counts the executions of line 124.
\<close>

datatype caller = Waiting | Running real | Done "exc + json"

fun is_running :: "caller \<Rightarrow> bool" where
  "is_running (Running now) = True"
| "is_running _ = False"

fun is_done :: "caller \<Rightarrow> bool" where
  "is_done (Done r) = True"
| "is_done _ = False"

record 'w system =
  lock_held :: bool
  globals :: cache
  world :: 'w
  callers :: "caller list"
  fetches :: nat

definition initial :: "nat \<Rightarrow> 'w \<Rightarrow> 'w system" where
  "initial n w =
     \<lparr>lock_held = False, globals = cache_initial, world = w,
      callers = replicate n Waiting, fetches = 0\<rparr>"

text \<open>
  One step of one caller. \<open>threading.Lock\<close> lets a caller in only while no other holds
  it; the caller then reads the clock, a value \<open>clock\<close> admits. The body of the block
  takes effect when the caller leaves it and gives the lock back. Only the block touches
  the globals, and only line 124 inside it touches the world.
\<close>

inductive step :: "'w os \<Rightarrow> (real \<Rightarrow> bool) \<Rightarrow> 'w system \<Rightarrow> 'w system \<Rightarrow> bool"
  for os :: "'w os" and clock :: "real \<Rightarrow> bool" where
  acquire:
    "i < length (callers s) \<Longrightarrow> callers s ! i = Waiting \<Longrightarrow> \<not> lock_held s \<Longrightarrow> clock now \<Longrightarrow>
     step os clock s (s\<lparr>lock_held := True, callers := (callers s)[i := Running now]\<rparr>)"
| release:
    "i < length (callers s) \<Longrightarrow> callers s ! i = Running now \<Longrightarrow>
     get_cached_weather os now (globals s, world s) = (r, c', w') \<Longrightarrow>
     step os clock s
       (s\<lparr>lock_held := False, globals := c', world := w',
          callers := (callers s)[i := Done r],
          fetches := fetches s + (if cache_fresh now (globals s) then 0 else 1)\<rparr>)"

section \<open>The payload and the soft failures, as the specification describes them\<close>

text \<open>
  The \<open>forecast\<close> field: the \<open>properties\<close> of the forecast response, an empty mapping
  when the response has none, with \<open>periods\<close> cut to its first six entries when it is a
  non-empty sequence.
\<close>

definition cut_periods :: "json \<Rightarrow> json" where
  "cut_periods p =
     (case p of
        JObj properties \<Rightarrow>
          (case map_of properties ''periods'' of
             Some (JArr ps) \<Rightarrow>
               if ps \<noteq> [] then JObj (dict_set properties ''periods'' (JArr (take 6 ps))) else p
           | _ \<Rightarrow> p)
      | _ \<Rightarrow> p)"

definition forecast_field :: "(string \<times> json) list \<Rightarrow> json" where
  "forecast_field fd = (case map_of fd ''properties'' of None \<Rightarrow> JObj [] | Some p \<Rightarrow> cut_periods p)"

text \<open>
  The \<open>observation\<close> field: the \<open>properties\<close> of the observation when it is an object,
  null otherwise.
\<close>

definition observation_field :: "json \<Rightarrow> json" where
  "observation_field observation =
     (case observation of
        JObj kvs \<Rightarrow> (case map_of kvs ''properties'' of None \<Rightarrow> JNull | Some v \<Rightarrow> v)
      | _ \<Rightarrow> JNull)"

text \<open>
  \<open>no_observation os w stations_url headers w'\<close>: step 3, started in the world \<open>w\<close>, ends
  in the world \<open>w'\<close> without an observation, in one of the ways the code tolerates. Either
  the points response named no stations URL; or the station list came back without
  features; or its first feature has no \<open>id\<close>; or the request for the latest observation
  raised one of the exceptions of line 108.
\<close>

inductive no_observation ::
  "'w os \<Rightarrow> 'w \<Rightarrow> json \<Rightarrow> (string \<times> string option) list \<Rightarrow> 'w \<Rightarrow> bool"
  for os :: "'w os" and w :: 'w and stations_url :: json
    and headers :: "(string \<times> string option) list" where
  no_stations_url:
    "\<not> truthy stations_url \<Longrightarrow> no_observation os w stations_url headers w"
| no_features:
    "truthy stations_url \<Longrightarrow>
     make_request os w stations_url headers = (Inr stations_data, w1) \<Longrightarrow>
     py_get stations_data ''features'' = Inr f \<Longrightarrow> \<not> truthy f \<Longrightarrow>
     no_observation os w stations_url headers w1"
| no_station_id:
    "truthy stations_url \<Longrightarrow>
     make_request os w stations_url headers = (Inr stations_data, w1) \<Longrightarrow>
     py_get stations_data ''features'' = Inr (JArr (station # others)) \<Longrightarrow>
     py_get station ''id'' = Inr latest_url \<Longrightarrow> \<not> truthy latest_url \<Longrightarrow>
     no_observation os w stations_url headers w1"
| latest_failed:
    "truthy stations_url \<Longrightarrow>
     make_request os w stations_url headers = (Inr stations_data, w1) \<Longrightarrow>
     py_get stations_data ''features'' = Inr (JArr (station # others)) \<Longrightarrow>
     py_get station ''id'' = Inr (JStr station_id) \<Longrightarrow> station_id \<noteq> [] \<Longrightarrow>
     urljoin os (station_id @ ''/'') ''observations/latest'' = Inr u \<Longrightarrow>
     make_request os w1 (JStr u) headers = (Inl e, w2) \<Longrightarrow>
     e \<in> range URLError \<union> range ProxyError \<union> range TimeoutError \<union> range ValueError \<Longrightarrow>
     no_observation os w stations_url headers w2"

section \<open>Scripted environments\<close>

text \<open>
  Environments for running the model on concrete inputs. The world is the number of
  requests sent so far; \<open>config\<close> is the state of \<open>config.json\<close> and \<open>table\<close> maps a URL
  to the answer of the upstream, an unknown URL being an HTTP error.
\<close>

definition respond :: "(string \<times> (exc + json)) list \<Rightarrow> json \<Rightarrow> exc + json" where
  "respond table url =
     (case url of
        JStr u \<Rightarrow> (case map_of table u of
                     None \<Rightarrow> Inl (URLError ''HTTP Error 404: Not Found'')
                   | Some r \<Rightarrow> r)
      | _ \<Rightarrow> Inl TypeError)"

definition scripted :: "(exc + json) option \<Rightarrow> (string \<times> (exc + json)) list \<Rightarrow> nat os" where
  "scripted config table =
     \<lparr>read_config = (\<lambda>w. config),
      urlopen = (\<lambda>w url hs. (respond table url, Suc w)),
      float_of_str = (\<lambda>s. Inl (ValueError ''could not convert string to float'')),
      float_of_int = (\<lambda>i. Inr (real_of_int i)),
      format_float = (\<lambda>r. ''0.0''),
      urljoin = (\<lambda>base rel. Inr (base @ rel)),
      json_dumps = (\<lambda>j. ''{}'')\<rparr>"

definition config_ok :: "(exc + json) option" where
  "config_ok =
     Some (Inr (JObj [(''weather'',
       JObj [(''latitude'', JInt 0), (''longitude'', JInt 0),
             (''userAgent'', JStr ''ops@example.com'')])]))"

definition config_without_latitude :: "(exc + json) option" where
  "config_without_latitude =
     Some (Inr (JObj [(''weather'', JObj [(''longitude'', JInt 0)])]))"

definition points_ok :: "string \<times> (exc + json)" where
  "points_ok =
     (''https://api.weather.gov/points/0.0,0.0'',
      Inr (JObj [(''properties'',
        JObj [(''forecast'', JStr ''F''), (''observationStations'', JStr ''S'')])]))"

definition points_without_forecast :: "string \<times> (exc + json)" where
  "points_without_forecast =
     (''https://api.weather.gov/points/0.0,0.0'',
      Inr (JObj [(''properties'', JObj [(''observationStations'', JStr ''S'')])]))"

definition forecast14 :: "string \<times> (exc + json)" where
  "forecast14 =
     (''F'', Inr (JObj [(''properties'',
        JObj [(''units'', JStr ''us''),
              (''periods'', JArr (map JInt [1, 2, 3, 4, 5, 6, 7, 8, 9, 10, 11, 12, 13, 14]))])]))"

definition stations_ok :: "string \<times> (exc + json)" where
  "stations_ok =
     (''S'', Inr (JObj [(''features'', JArr [JObj [(''id'', JStr ''K'')], JObj [(''id'', JStr ''L'')]])]))"

definition observation_ok :: "string \<times> (exc + json)" where
  "observation_ok =
     (''K/observations/latest'', Inr (JObj [(''properties'', JObj [(''temperature'', JInt 20)])]))"

definition observation_not_object :: "string \<times> (exc + json)" where
  "observation_not_object = (''K/observations/latest'', Inr (JArr [JInt 20]))"

text \<open>Clock readings that lie within one window of 300 seconds.\<close>

definition one_window :: "real \<Rightarrow> bool" where
  "one_window t = (1000 \<le> t \<and> t < 1300)"

text \<open>
  A \<open>config.json\<close> whose \<open>weather\<close> is null, and a points request on which the peer
  closes the connection: \<open>getresponse\<close> raises an exception that is none of
  \<open>URLError\<close>, \<open>TimeoutError\<close> and \<open>ValueError\<close>.
\<close>

definition config_weather_null :: "(exc + json) option" where
  "config_weather_null = Some (Inr (JObj [(''weather'', JNull)]))"

definition points_disconnected :: "string \<times> (exc + json)" where
  "points_disconnected = (''https://api.weather.gov/points/0.0,0.0'', Inl OtherError)"

section \<open>Running the model on the scripted environments\<close>

lemmas scripted_defs = scripted_def respond_def config_ok_def points_ok_def forecast14_def
  stations_ok_def observation_ok_def points_without_forecast_def observation_not_object_def
  config_without_latitude_def config_weather_null_def points_disconnected_def

lemmas pipeline_defs = fetch_from_nws_def fetch_points_def load_config_def make_request_def
  request_headers_def point_url_def point_urls_def trim_forecast_def fetch_observation_def
  build_payload_def py_get_def py_or_def contact_of_def strip_def isspace_def format_user_agent_def

lemma load_config_scripted:
  "load_config (scripted config_ok table) w = Inr (0, 0, ''ops@example.com'')"
  by (simp add: scripted_defs pipeline_defs)

lemma fetch_points_scripted:
  "fetch_points (scripted config_ok (points_ok # table)) w =
     (Inr (JStr ''F'', JStr ''S'', request_headers ''ops@example.com''), Suc w)"
  by (simp add: scripted_defs fetch_points_def load_config_def make_request_def point_url_def
      point_urls_def py_get_def py_or_def contact_of_def strip_def isspace_def)

lemma fetch_all_ok:
  "fetch_from_nws (scripted config_ok [points_ok, forecast14, stations_ok, observation_ok]) 0 =
     (Inr (JObj [(''forecast'', JObj [(''units'', JStr ''us''),
                   (''periods'', JArr [JInt 1, JInt 2, JInt 3, JInt 4, JInt 5, JInt 6])]),
                 (''observation'', JObj [(''temperature'', JInt 20)])]), 4)"
  by (simp add: scripted_defs pipeline_defs)

lemma fetch_upstream_down:
  "fetch_from_nws (scripted config_ok []) w =
     (Inl (URLError ''HTTP Error 404: Not Found''), Suc w)"
  by (simp add: scripted_defs pipeline_defs)

lemma fetch_config_missing:
  "fetch_from_nws (scripted None table) w =
     (Inl (ProxyError ''config.json not found alongside weather_proxy.py''), w)"
  by (simp add: scripted_defs pipeline_defs)

lemma fetch_stations_down:
  "fetch_from_nws (scripted config_ok [points_ok, forecast14]) 0 =
     (Inl (URLError ''HTTP Error 404: Not Found''), 3)"
  by (simp add: scripted_defs pipeline_defs)

lemma fetch_without_forecast_url:
  "fetch_from_nws (scripted config_ok [points_without_forecast, forecast14, stations_ok]) 0 =
     (Inl (ProxyError ''Forecast URL unavailable for configured coordinates''), 1)"
  by (simp add: scripted_defs pipeline_defs)

lemma fetch_weather_null:
  "fetch_from_nws (scripted config_weather_null table) w = (Inl AttributeError, w)"
  by (simp add: scripted_defs pipeline_defs)

lemma fetch_points_disconnected:
  "fetch_from_nws (scripted config_ok [points_disconnected]) w = (Inl OtherError, Suc w)"
  by (simp add: scripted_defs pipeline_defs)

section \<open>Properties of the fetch pipeline\<close>

lemma fetch_from_nws_stages:
  assumes "fetch_points os w = (Inr (forecast_url, stations_url, headers), w1)"
    and "make_request os w1 forecast_url headers = (Inr forecast_data, w2)"
  shows "fetch_from_nws os w =
     (case trim_forecast forecast_data of
        Inl e \<Rightarrow> (Inl e, w2)
      | Inr forecast_data' \<Rightarrow>
          (case fetch_observation os w2 stations_url headers of
             (Inl e, w3) \<Rightarrow> (Inl e, w3)
           | (Inr observation, w3) \<Rightarrow> (build_payload forecast_data' observation, w3)))"
  using assms by (simp add: fetch_from_nws_def)

lemma fetch_from_nws_success:
  assumes "fetch_from_nws os w = (Inr payload, w')"
  shows "\<exists>forecast_url stations_url headers w1 forecast_data w2 forecast_data' observation.
     fetch_points os w = (Inr (forecast_url, stations_url, headers), w1) \<and>
     make_request os w1 forecast_url headers = (Inr forecast_data, w2) \<and>
     trim_forecast forecast_data = Inr forecast_data' \<and>
     fetch_observation os w2 stations_url headers = (Inr observation, w') \<and>
     build_payload forecast_data' observation = Inr payload"
  using assms unfolding fetch_from_nws_def
  by (auto split: prod.splits sum.splits)

lemma map_of_dict_set: "map_of (dict_set kvs k v) = (map_of kvs)(k \<mapsto> v)"
  by (induction kvs) (auto simp: fun_eq_iff)

lemma keys_dict_set: "map_of kvs k = Some x \<Longrightarrow> map fst (dict_set kvs k v) = map fst kvs"
  by (induction kvs) (auto split: if_splits)

lemma trim_forecast_field:
  assumes "trim_forecast forecast_data = Inr forecast_data'"
  shows "\<exists>fd. forecast_data = JObj fd \<and>
     py_get_default forecast_data' ''properties'' (JObj []) = Inr (forecast_field fd)"
  using assms unfolding trim_forecast_def forecast_field_def cut_periods_def py_get_def py_or_def
  by (cases forecast_data)
     (auto simp: map_of_dict_set split: sum.splits option.splits json.splits if_splits)

lemma build_payload_fields:
  assumes "trim_forecast (JObj fd) = Inr forecast_data'"
  shows "build_payload forecast_data' observation =
     Inr (JObj [(''forecast'', forecast_field fd), (''observation'', observation_field observation)])"
proof -
  from trim_forecast_field [OF assms]
  have "py_get_default forecast_data' ''properties'' (JObj []) = Inr (forecast_field fd)" by simp
  then show ?thesis
    by (simp add: build_payload_def observation_field_def py_get_def split: json.splits)
qed


lemma caught_by_observation_iff:
  "caught_by_observation e \<longleftrightarrow>
   e \<in> range URLError \<union> range ProxyError \<union> range TimeoutError \<union> range ValueError"
  by (cases e) auto

lemma no_observation_fetch:
  assumes "no_observation os w stations_url headers w'"
  shows "fetch_observation os w stations_url headers = (Inr JNull, w')"
  using assms
proof cases
  case no_stations_url
  then show ?thesis by (simp add: fetch_observation_def)
next
  case (no_features stations_data f)
  then show ?thesis by (simp add: fetch_observation_def py_or_def)
next
  case (no_station_id stations_data station others latest_url)
  then show ?thesis by (simp add: fetch_observation_def py_or_def)
next
  case (latest_failed stations_data w1 station others station_id u e)
  then have "caught_by_observation e" by (simp add: caught_by_observation_iff)
  with latest_failed show ?thesis by (simp add: fetch_observation_def py_or_def)
qed

lemma fetch_observation_source:
  assumes "fetch_observation os w stations_url headers = (Inr observation, w')"
  shows "observation = JNull \<or> (\<exists>u w1. make_request os w1 (JStr u) headers = (Inr observation, w'))"
  using assms unfolding fetch_observation_def
  by (auto split: if_splits prod.splits sum.splits)

lemma fetch_payload_not_null:
  assumes "fetch_from_nws os w = (Inr payload, w')"
  shows "payload \<noteq> JNull"
proof -
  from fetch_from_nws_success [OF assms] obtain forecast_data forecast_data' observation
    where t: "trim_forecast forecast_data = Inr forecast_data'"
      and b: "build_payload forecast_data' observation = Inr payload"
    by blast
  from trim_forecast_field [OF t] obtain fd where "forecast_data = JObj fd" by blast
  with t b show ?thesis by (auto simp: build_payload_fields)
qed

section \<open>Properties of the cache and of the handler\<close>

lemma get_cached_weather_hit:
  "cache_fresh now c \<Longrightarrow> get_cached_weather os now (c, w) = (Inr (cache_payload c), c, w)"
  by (simp add: get_cached_weather_def)

lemma get_cached_weather_miss:
  "\<not> cache_fresh now c \<Longrightarrow>
   get_cached_weather os now (c, w) =
     (case fetch_from_nws os w of
        (Inl e, w') \<Rightarrow> (Inl e, c, w')
      | (Inr payload, w') \<Rightarrow> (Inr payload, \<lparr>cache_payload = payload, cache_timestamp = now\<rparr>, w'))"
  by (simp add: get_cached_weather_def)

lemma cold_cache_stale: "\<not> cache_fresh now cache_initial"
  by (simp add: cache_fresh_def cache_initial_def)

lemma do_GET_ok:
  assumes "rstrip_slash path \<in> {'''', ''/weather''}"
    and "get_cached_weather os now s = (Inr payload, s')"
  shows "do_GET os path now s =
     (Inr (SendResponse 200
             [(''Content-Type'', ''application/json; charset=utf-8''),
              (''Cache-Control'', ''no-store''),
              (''Content-Length'', str_nat (length (json_dumps os payload)))]
             (json_dumps os payload)), s')"
  using assms by (simp add: do_GET_def)

lemma weather_routes:
  "rstrip_slash ''/weather'' = ''/weather''" "rstrip_slash ''/weather/'' = ''/weather''"
  "rstrip_slash ''/'' = []"
  by (simp_all add: rstrip_slash_def)

section \<open>Properties of the User-Agent\<close>

lemma dropWhile_all: "\<forall>x\<in>set xs. P x \<Longrightarrow> dropWhile P xs = []"
  by (induction xs) auto

lemma dropWhile_mid: "\<forall>x\<in>set as. P x \<Longrightarrow> \<not> P b \<Longrightarrow> dropWhile P (as @ b # cs) = b # cs"
  by (induction as) auto

lemma dropWhile_rev_commute:
  "dropWhile P (rev (dropWhile P (rev xs))) = rev (dropWhile P (rev (dropWhile P xs)))"
proof (cases "\<forall>x\<in>set xs. P x")
  case True
  then have a: "dropWhile P xs = []" and b: "dropWhile P (rev xs) = []"
    by (simp_all add: dropWhile_all)
  show ?thesis unfolding a b by simp
next
  case False
  then have "\<exists>x\<in>set xs. \<not> P x" by simp
  from split_list_first_prop [OF this]
  obtain pre x post where xs: "xs = pre @ x # post"
    and pre: "\<forall>y\<in>set pre. P y" and x: "\<not> P x"
    by auto
  have l: "dropWhile P xs = x # post"
    unfolding xs using pre x by (rule dropWhile_mid)
  show ?thesis
  proof (cases "\<forall>y\<in>set post. P y")
    case True
    then have rp: "\<forall>y\<in>set (rev post). P y" by simp
    have r: "rev xs = rev post @ x # rev pre" by (simp add: xs)
    have a: "dropWhile P (rev xs) = x # rev pre"
      unfolding r using rp x by (rule dropWhile_mid)
    have b: "dropWhile P (pre @ x # []) = x # []"
      using pre x by (rule dropWhile_mid)
    have c: "dropWhile P (rev post @ x # []) = x # []"
      using rp x by (rule dropWhile_mid)
    have "rev (x # rev pre) = pre @ x # []" by simp
    moreover have "rev (x # post) = rev post @ x # []" by simp
    ultimately show ?thesis unfolding a l by (simp only: b c rev.simps append_Nil)
  next
    case False
    then have "\<exists>x\<in>set post. \<not> P x" by simp
    from split_list_last_prop [OF this]
    obtain mid z suf where post: "post = mid @ z # suf"
      and suf: "\<forall>y\<in>set suf. P y" and z: "\<not> P z"
      by auto
    from suf have rs: "\<forall>y\<in>set (rev suf). P y" by simp
    have r: "rev xs = rev suf @ z # (rev mid @ x # rev pre)" by (simp add: xs post)
    have a: "dropWhile P (rev xs) = z # (rev mid @ x # rev pre)"
      unfolding r using rs z by (rule dropWhile_mid)
    have b: "dropWhile P (pre @ x # (mid @ z # [])) = x # (mid @ z # [])"
      using pre x by (rule dropWhile_mid)
    have r2: "rev (x # post) = rev suf @ z # (rev mid @ x # [])" by (simp add: post)
    have c: "dropWhile P (rev (x # post)) = z # (rev mid @ x # [])"
      unfolding r2 using rs z by (rule dropWhile_mid)
    have d: "rev (z # (rev mid @ x # rev pre)) = pre @ x # (mid @ z # [])" by simp
    have e: "rev (z # (rev mid @ x # [])) = x # (mid @ z # [])" by simp
    show ?thesis unfolding l c a d e by (rule b)
  qed
qed

lemma strip_idem: "strip (strip s) = strip s"
  unfolding strip_def by (simp add: dropWhile_rev_commute)

lemma contact_of_stripped: "contact_of x = Inr contact \<Longrightarrow> strip contact = contact"
  by (auto simp: contact_of_def strip_idem split: json.splits)

lemma load_config_contact_stripped:
  "load_config os w = Inr (latitude, longitude, contact) \<Longrightarrow> strip contact = contact"
  unfolding load_config_def
  by (auto split: option.splits sum.splits if_splits dest: contact_of_stripped)

text \<open>
  C9, as the code has it. \<open>_format_user_agent\<close> first strips the whitespace around the
  contact string, and the three cases are decided on, and built from, the stripped
  string: empty gives the fallback identity; non-empty with neither \<open>/\<close> nor \<open>(\<close> is
  wrapped as \<open>LegacyDashboardProxy/1.0 (<stripped>)\<close>; otherwise the stripped string is
  the User-Agent. For a contact without surrounding whitespace, which is what
  \<open>_load_config\<close> supplies (\<open>load_config_contact_stripped\<close>), the stripped string is
  the contact itself.
\<close>

theorem format_user_agent_cases:
  "(strip raw = [] \<longrightarrow>
      format_user_agent (Some raw) = ''LegacyDashboardProxy/1.0 (contact unavailable)'') \<and>
   (strip raw \<noteq> [] \<and> CHR ''/'' \<notin> set (strip raw) \<and> CHR ''('' \<notin> set (strip raw) \<longrightarrow>
      format_user_agent (Some raw) = ''LegacyDashboardProxy/1.0 ('' @ strip raw @ '')'') \<and>
   (strip raw \<noteq> [] \<and> (CHR ''/'' \<in> set (strip raw) \<or> CHR ''('' \<in> set (strip raw)) \<longrightarrow>
      format_user_agent (Some raw) = strip raw)"
  by (cases "raw = []") (auto simp: format_user_agent_def Let_def)

theorem format_user_agent_cases_witness:
  "strip [] = [] \<and>
   format_user_agent (Some []) = ''LegacyDashboardProxy/1.0 (contact unavailable)'' \<and>
   strip '' ops@example.com '' = ''ops@example.com'' \<and>
   format_user_agent (Some '' ops@example.com '') = ''LegacyDashboardProxy/1.0 (ops@example.com)'' \<and>
   strip ''Dashboard/2.0 (ops@example.com)'' = ''Dashboard/2.0 (ops@example.com)'' \<and>
   format_user_agent (Some ''Dashboard/2.0 (ops@example.com)'') = ''Dashboard/2.0 (ops@example.com)''"
  using format_user_agent_cases [of "[]"]
    format_user_agent_cases [of "'' ops@example.com ''"]
    format_user_agent_cases [of "''Dashboard/2.0 (ops@example.com)''"]
  by (simp add: strip_def isspace_def)

text \<open>
  C9, as the specification words it, fails on a contact string with surrounding
  whitespace: a single space is not empty and contains neither \<open>/\<close> nor \<open>(\<close>, yet the
  User-Agent is the fallback identity and not the wrapped string.
\<close>

theorem format_user_agent_space_counterexample:
  "'' '' \<noteq> [] \<and> CHR ''/'' \<notin> set '' '' \<and> CHR ''('' \<notin> set '' '' \<and>
   format_user_agent (Some '' '') = ''LegacyDashboardProxy/1.0 (contact unavailable)'' \<and>
   format_user_agent (Some '' '') \<noteq> ''LegacyDashboardProxy/1.0 ('' @ '' '' @ '')''"
  by (simp add: format_user_agent_def strip_def isspace_def)

section \<open>Configuration errors\<close>

text \<open>
  C3, as the code has it. A missing \<open>config.json\<close>, or one whose \<open>weather\<close> section
  lacks \<open>latitude\<close> or \<open>longitude\<close> (the \<open>userAgent\<close> being absent, false or a string),
  does not keep the process from serving: \<open>main\<close> starts the server without reading
  the configuration. The condition shows on every run of the fetch pipeline, which
  raises \<open>ProxyError\<close> with the message of \<open>_load_config\<close> before any request is sent;
  a request on the weather route that finds no fresh cache entry is answered with 502
  and that message, and the cache and the world stay as they were.
\<close>

theorem config_error_per_request:
  assumes "read_config os w = None \<and>
             msg = ''config.json not found alongside weather_proxy.py'' \<or>
           (\<exists>data weather latitude longitude ua contact.
              read_config os w = Some (Inr data) \<and>
              py_get_default data ''weather'' (JObj []) = Inr weather \<and>
              py_get weather ''latitude'' = Inr latitude \<and>
              py_get weather ''longitude'' = Inr longitude \<and>
              py_get weather ''userAgent'' = Inr ua \<and>
              contact_of ua = Inr contact \<and>
              (latitude = JNull \<or> longitude = JNull) \<and>
              msg = ''config.json must supply weather.latitude and weather.longitude'')"
  shows "main os w host port =
           Serving (case host of None \<Rightarrow> ''0.0.0.0'' | Some h \<Rightarrow> h)
                   (case port of None \<Rightarrow> 8050 | Some p \<Rightarrow> p) \<and>
         fetch_from_nws os w = (Inl (ProxyError msg), w) \<and>
         (rstrip_slash path \<in> {'''', ''/weather''} \<and> \<not> cache_fresh now c \<longrightarrow>
            do_GET os path now (c, w) = (Inr (SendError 502 msg), c, w))"
proof -
  have "load_config os w = Inl (ProxyError msg)"
    using assms by (auto simp: load_config_def)
  then have "fetch_from_nws os w = (Inl (ProxyError msg), w)"
    by (simp add: fetch_from_nws_def fetch_points_def)
  then show ?thesis
    by (simp add: main_def do_GET_def get_cached_weather_miss)
qed

theorem config_error_per_request_witness:
  "main (scripted None []) 0 None None = Serving ''0.0.0.0'' 8050 \<and>
   fetch_from_nws (scripted None []) 0 =
     (Inl (ProxyError ''config.json not found alongside weather_proxy.py''), 0) \<and>
   do_GET (scripted None []) ''/weather'' 1000 (cache_initial, 0) =
     (Inr (SendError 502 ''config.json not found alongside weather_proxy.py''), cache_initial, 0) \<and>
   fetch_from_nws (scripted config_without_latitude []) 0 =
     (Inl (ProxyError ''config.json must supply weather.latitude and weather.longitude''), 0) \<and>
   do_GET (scripted config_without_latitude []) ''/weather'' 1000 (cache_initial, 0) =
     (Inr (SendError 502 ''config.json must supply weather.latitude and weather.longitude''),
      cache_initial, 0)"
proof -
  have a: "read_config (scripted None []) 0 = None \<and>
      ''config.json not found alongside weather_proxy.py'' =
      ''config.json not found alongside weather_proxy.py'' \<or>
      (\<exists>data weather latitude longitude ua contact.
         read_config (scripted None []) 0 = Some (Inr data) \<and>
         py_get_default data ''weather'' (JObj []) = Inr weather \<and>
         py_get weather ''latitude'' = Inr latitude \<and>
         py_get weather ''longitude'' = Inr longitude \<and>
         py_get weather ''userAgent'' = Inr ua \<and>
         contact_of ua = Inr contact \<and>
         (latitude = JNull \<or> longitude = JNull) \<and>
         ''config.json not found alongside weather_proxy.py'' =
         ''config.json must supply weather.latitude and weather.longitude'')"
    by (simp add: scripted_def)
  have b: "read_config (scripted config_without_latitude []) 0 = None \<and>
      ''config.json must supply weather.latitude and weather.longitude'' =
      ''config.json not found alongside weather_proxy.py'' \<or>
      (\<exists>data weather latitude longitude ua contact.
         read_config (scripted config_without_latitude []) 0 = Some (Inr data) \<and>
         py_get_default data ''weather'' (JObj []) = Inr weather \<and>
         py_get weather ''latitude'' = Inr latitude \<and>
         py_get weather ''longitude'' = Inr longitude \<and>
         py_get weather ''userAgent'' = Inr ua \<and>
         contact_of ua = Inr contact \<and>
         (latitude = JNull \<or> longitude = JNull) \<and>
         ''config.json must supply weather.latitude and weather.longitude'' =
         ''config.json must supply weather.latitude and weather.longitude'')"
    by (simp add: scripted_def config_without_latitude_def py_get_def contact_of_def py_or_def
        strip_def)
  from config_error_per_request [OF a, of None None "''/weather''" 1000 cache_initial]
    config_error_per_request [OF b, of None None "''/weather''" 1000 cache_initial]
  show ?thesis by (simp add: weather_routes cold_cache_stale)
qed

text \<open>
  C3, as the specification words it, fails: with no \<open>config.json\<close> the server is started
  all the same, and the missing file is reported to the client of a single request, as
  a 502 response.
\<close>

theorem config_missing_counterexample:
  "read_config (scripted None []) 0 = None \<and>
   main (scripted None []) 0 None None = Serving ''0.0.0.0'' 8050 \<and>
   do_GET (scripted None []) ''/weather'' 1000 (cache_initial, 0) =
     (Inr (SendError 502 ''config.json not found alongside weather_proxy.py''), cache_initial, 0)"
  by (simp add: main_def do_GET_def weather_routes get_cached_weather_miss cold_cache_stale
      fetch_config_missing, simp add: scripted_def)

section \<open>The forecast URL\<close>

text \<open>
  C8, as the code has it. For every fetch in which the configuration loads, the points
  request returns an object and its \<open>properties.forecast\<close> is absent or empty (false),
  the whole fetch fails with a \<open>ProxyError\<close> whose message is \<open>Forecast URL unavailable
  for configured coordinates\<close>. The failure ends the call: the world afterwards is the
  world right after the points request, so nothing is requested again.
\<close>

theorem forecast_url_unavailable:
  assumes "load_config os w = Inr (latitude, longitude, contact)"
    and "make_request os w (JStr (point_url os latitude longitude)) (request_headers contact) =
           (Inr point_data, w1)"
    and "py_get point_data ''properties'' = Inr p"
    and "py_get (py_or p (JObj [])) ''forecast'' = Inr forecast_url"
    and "\<not> truthy forecast_url"
  shows "fetch_from_nws os w =
           (Inl (ProxyError ''Forecast URL unavailable for configured coordinates''), w1)"
proof -
  from assms(4) obtain kvs where "py_or p (JObj []) = JObj kvs"
    by (cases "py_or p (JObj [])") (simp_all add: py_get_def)
  then have "point_urls point_data =
      Inl (ProxyError ''Forecast URL unavailable for configured coordinates'')"
    using assms(3,4,5) by (simp add: point_urls_def py_get_def)
  then show ?thesis using assms(1,2)
    by (simp add: fetch_from_nws_def fetch_points_def)
qed

theorem forecast_url_unavailable_witness:
  "fetch_from_nws (scripted config_ok [points_without_forecast, forecast14, stations_ok]) 0 =
     (Inl (ProxyError ''Forecast URL unavailable for configured coordinates''), 1)"
proof -
  let ?os = "scripted config_ok [points_without_forecast, forecast14, stations_ok]"
  let ?p = "JObj [(''observationStations'', JStr ''S'')]"
  have a: "load_config ?os 0 = Inr (0, 0, ''ops@example.com'')"
    by (rule load_config_scripted)
  have b: "make_request ?os 0 (JStr (point_url ?os 0 0)) (request_headers ''ops@example.com'') =
      (Inr (JObj [(''properties'', ?p)]), 1)"
    by (simp add: scripted_defs make_request_def point_url_def)
  have c: "py_get (JObj [(''properties'', ?p)]) ''properties'' = Inr ?p"
    by (simp add: py_get_def)
  have d: "py_get (py_or ?p (JObj [])) ''forecast'' = Inr JNull"
    by (simp add: py_get_def py_or_def)
  have e: "\<not> truthy JNull" by simp
  from forecast_url_unavailable [OF a b c d e] show ?thesis .
qed

text \<open>
  C8, as the specification words it, fails on the message: the error raised for a points
  response without a forecast URL does not read \<open>forecast URL unavailable\<close>.
\<close>

theorem forecast_url_message_counterexample:
  "fst (fetch_from_nws (scripted config_ok [points_without_forecast, forecast14, stations_ok]) 0) =
     Inl (ProxyError ''Forecast URL unavailable for configured coordinates'') \<and>
   fst (fetch_from_nws (scripted config_ok [points_without_forecast, forecast14, stations_ok]) 0) \<noteq>
     Inl (ProxyError ''forecast URL unavailable'')"
  by (simp add: fetch_without_forecast_url)

section \<open>The forecast periods\<close>

text \<open>
  C7. For every fetch whose forecast response has a non-empty sequence as
  \<open>properties.periods\<close>, the \<open>forecast\<close> of the payload holds exactly the first six periods,
  or all of them when there are fewer, in their original order: its \<open>periods\<close> is
  \<open>take 6\<close> of the sequence. The other entries of \<open>properties\<close> and the order of its keys
  are unchanged.
\<close>

theorem first_six_periods:
  assumes "fetch_points os w = (Inr (forecast_url, stations_url, headers), w1)"
    and "make_request os w1 forecast_url headers = (Inr (JObj fd), w2)"
    and "map_of fd ''properties'' = Some (JObj properties)"
    and "map_of properties ''periods'' = Some (JArr ps)"
    and "ps \<noteq> []"
    and "fetch_from_nws os w = (Inr payload, w')"
  shows "\<exists>forecast observation.
     payload = JObj [(''forecast'', JObj forecast), (''observation'', observation)] \<and>
     map_of forecast ''periods'' = Some (JArr (take 6 ps)) \<and>
     length (take 6 ps) = min 6 (length ps) \<and>
     (\<forall>k. k \<noteq> ''periods'' \<longrightarrow> map_of forecast k = map_of properties k) \<and>
     map fst forecast = map fst properties"
proof -
  from assms(6) fetch_from_nws_stages [OF assms(1,2)]
  obtain forecast_data' observation
    where t: "trim_forecast (JObj fd) = Inr forecast_data'"
      and b: "build_payload forecast_data' observation = Inr payload"
    by (auto split: sum.splits prod.splits)
  have f: "forecast_field fd = JObj (dict_set properties ''periods'' (JArr (take 6 ps)))"
    using assms(3,4,5) by (simp add: forecast_field_def cut_periods_def)
  from b have "payload = JObj [(''forecast'', JObj (dict_set properties ''periods'' (JArr (take 6 ps)))),
      (''observation'', observation_field observation)]"
    by (simp add: build_payload_fields [OF t] f)
  moreover have "map_of (dict_set properties ''periods'' (JArr (take 6 ps))) ''periods'' = Some (JArr (take 6 ps))"
    by (simp add: map_of_dict_set)
  moreover have "\<forall>k. k \<noteq> ''periods'' \<longrightarrow>
      map_of (dict_set properties ''periods'' (JArr (take 6 ps))) k = map_of properties k"
    by (simp add: map_of_dict_set)
  moreover have "map fst (dict_set properties ''periods'' (JArr (take 6 ps))) = map fst properties"
    using assms(4) by (rule keys_dict_set)
  ultimately show ?thesis by simp
qed

text \<open>A forecast response with 14 periods: the payload holds the first six.\<close>

theorem first_six_periods_witness:
  "\<exists>forecast observation.
     fst (fetch_from_nws (scripted config_ok [points_ok, forecast14, stations_ok, observation_ok]) 0) =
       Inr (JObj [(''forecast'', JObj forecast), (''observation'', observation)]) \<and>
     map_of forecast ''periods'' = Some (JArr [JInt 1, JInt 2, JInt 3, JInt 4, JInt 5, JInt 6])"
proof -
  let ?os = "scripted config_ok [points_ok, forecast14, stations_ok, observation_ok]"
  let ?h = "request_headers ''ops@example.com''"
  let ?periods = "map JInt [1, 2, 3, 4, 5, 6, 7, 8, 9, 10, 11, 12, 13, 14]"
  let ?properties = "[(''units'', JStr ''us''), (''periods'', JArr ?periods)]"
  have a: "fetch_points ?os 0 = (Inr (JStr ''F'', JStr ''S'', ?h), 1)"
    using fetch_points_scripted [of "[forecast14, stations_ok, observation_ok]" 0] by simp
  have b: "make_request ?os 1 (JStr ''F'') ?h = (Inr (JObj [(''properties'', JObj ?properties)]), 2)"
    by (simp add: scripted_defs make_request_def)
  have c: "map_of [(''properties'', JObj ?properties)] ''properties'' = Some (JObj ?properties)"
    by simp
  have d: "map_of ?properties ''periods'' = Some (JArr ?periods)" by simp
  have e: "?periods \<noteq> []" by simp
  from first_six_periods [OF a b c d e fetch_all_ok]
  obtain forecast observation where
    "JObj [(''forecast'', JObj [(''units'', JStr ''us''),
                   (''periods'', JArr [JInt 1, JInt 2, JInt 3, JInt 4, JInt 5, JInt 6])]),
           (''observation'', JObj [(''temperature'', JInt 20)])] =
       JObj [(''forecast'', JObj forecast), (''observation'', observation)]"
    and "map_of forecast ''periods'' = Some (JArr (take 6 ?periods))"
    by blast
  then show ?thesis by (simp add: fetch_all_ok)
qed

section \<open>Failures of the observation step\<close>

text \<open>
  C2, as the code has it. For every fetch in which the points call succeeded and yielded
  a forecast URL and the forecast call returned an object whose \<open>properties\<close> is absent,
  false or an object: when step 3 ends in one of the ways of \<open>no_observation\<close> (no
  stations URL; a station list without features; a first feature without \<open>id\<close>; or a
  network error, timeout or unparsable body on the request for the latest observation),
  the fetch succeeds with the forecast as the forecast response gives it and with a null
  observation, and a request on the weather route that runs this fetch is answered with
  200 and that payload.
\<close>

theorem observation_failure_nonfatal:
  assumes "fetch_points os w = (Inr (forecast_url, stations_url, headers), w1)"
    and "make_request os w1 forecast_url headers = (Inr (JObj fd), w2)"
    and "py_get (JObj fd) ''properties'' = Inr p"
    and "py_or p (JObj []) = JObj properties"
    and "no_observation os w2 stations_url headers w3"
    and "payload = JObj [(''forecast'', forecast_field fd), (''observation'', JNull)]"
  shows "fetch_from_nws os w = (Inr payload, w3) \<and>
         (rstrip_slash path \<in> {'''', ''/weather''} \<and> \<not> cache_fresh now c \<longrightarrow>
            do_GET os path now (c, w) =
              (Inr (SendResponse 200
                      [(''Content-Type'', ''application/json; charset=utf-8''),
                       (''Cache-Control'', ''no-store''),
                       (''Content-Length'', str_nat (length (json_dumps os payload)))]
                      (json_dumps os payload)),
               \<lparr>cache_payload = payload, cache_timestamp = now\<rparr>, w3))"
proof -
  have "\<exists>forecast_data'. trim_forecast (JObj fd) = Inr forecast_data'"
    using assms(3,4) unfolding trim_forecast_def py_get_def
    by (auto split: sum.splits json.splits)
  then obtain forecast_data' where t: "trim_forecast (JObj fd) = Inr forecast_data'" ..
  have r: "fetch_from_nws os w = (Inr payload, w3)"
    using fetch_from_nws_stages [OF assms(1,2)] no_observation_fetch [OF assms(5)]
      build_payload_fields [OF t, of JNull]
    by (simp add: t observation_field_def assms(6))
  show ?thesis
  proof (intro conjI impI)
    show "fetch_from_nws os w = (Inr payload, w3)" by (rule r)
  next
    assume a: "rstrip_slash path \<in> {'''', ''/weather''} \<and> \<not> cache_fresh now c"
    then have "get_cached_weather os now (c, w) =
        (Inr payload, \<lparr>cache_payload = payload, cache_timestamp = now\<rparr>, w3)"
      by (simp add: get_cached_weather_miss r)
    from do_GET_ok [OF _ this] a
    show "do_GET os path now (c, w) =
              (Inr (SendResponse 200
                      [(''Content-Type'', ''application/json; charset=utf-8''),
                       (''Cache-Control'', ''no-store''),
                       (''Content-Length'', str_nat (length (json_dumps os payload)))]
                      (json_dumps os payload)),
               \<lparr>cache_payload = payload, cache_timestamp = now\<rparr>, w3)"
      by simp
  qed
qed

text \<open>The request for the latest observation fails: the payload has a null observation.\<close>

theorem observation_failure_nonfatal_witness:
  "fetch_from_nws (scripted config_ok [points_ok, forecast14, stations_ok]) 0 =
     (Inr (JObj [(''forecast'', JObj [(''units'', JStr ''us''),
                   (''periods'', JArr [JInt 1, JInt 2, JInt 3, JInt 4, JInt 5, JInt 6])]),
                 (''observation'', JNull)]), 4) \<and>
   do_GET (scripted config_ok [points_ok, forecast14, stations_ok]) ''/weather'' 1000 (cache_initial, 0) =
     (Inr (SendResponse 200
             [(''Content-Type'', ''application/json; charset=utf-8''),
              (''Cache-Control'', ''no-store''),
              (''Content-Length'', ''2'')]
             ''{}''),
      \<lparr>cache_payload = JObj [(''forecast'', JObj [(''units'', JStr ''us''),
                   (''periods'', JArr [JInt 1, JInt 2, JInt 3, JInt 4, JInt 5, JInt 6])]),
                 (''observation'', JNull)], cache_timestamp = 1000\<rparr>, 4)"
proof -
  let ?os = "scripted config_ok [points_ok, forecast14, stations_ok]"
  let ?h = "request_headers ''ops@example.com''"
  let ?periods = "map JInt [1, 2, 3, 4, 5, 6, 7, 8, 9, 10, 11, 12, 13, 14]"
  let ?properties = "[(''units'', JStr ''us''), (''periods'', JArr ?periods)]"
  let ?fd = "[(''properties'', JObj ?properties)]"
  let ?stations = "JObj [(''features'', JArr [JObj [(''id'', JStr ''K'')], JObj [(''id'', JStr ''L'')]])]"
  have a: "fetch_points ?os 0 = (Inr (JStr ''F'', JStr ''S'', ?h), 1)"
    using fetch_points_scripted [of "[forecast14, stations_ok]" 0] by simp
  have b: "make_request ?os 1 (JStr ''F'') ?h = (Inr (JObj ?fd), 2)"
    by (simp add: scripted_defs make_request_def)
  have c: "py_get (JObj ?fd) ''properties'' = Inr (JObj ?properties)"
    by (simp add: py_get_def)
  have d: "py_or (JObj ?properties) (JObj []) = JObj ?properties"
    by (simp add: py_or_def)
  have e: "no_observation ?os 2 (JStr ''S'') ?h 4"
  proof (rule no_observation.latest_failed)
    show "truthy (JStr ''S'')" by simp
    show "make_request ?os 2 (JStr ''S'') ?h = (Inr ?stations, 3)"
      by (simp add: scripted_defs make_request_def)
    show "py_get ?stations ''features'' = Inr (JArr (JObj [(''id'', JStr ''K'')] # [JObj [(''id'', JStr ''L'')]]))"
      by (simp add: py_get_def)
    show "py_get (JObj [(''id'', JStr ''K'')]) ''id'' = Inr (JStr ''K'')"
      by (simp add: py_get_def)
    show "''K'' \<noteq> []" by simp
    show "urljoin ?os (''K'' @ ''/'') ''observations/latest'' = Inr ''K/observations/latest''"
      by (simp add: scripted_def)
    show "make_request ?os 3 (JStr ''K/observations/latest'') ?h =
        (Inl (URLError ''HTTP Error 404: Not Found''), 4)"
      by (simp add: scripted_defs make_request_def)
    show "URLError ''HTTP Error 404: Not Found'' \<in>
        range URLError \<union> range ProxyError \<union> range TimeoutError \<union> range ValueError"
      by simp
  qed
  have f: "JObj [(''forecast'', forecast_field ?fd), (''observation'', JNull)] =
      JObj [(''forecast'', forecast_field ?fd), (''observation'', JNull)]" ..
  from observation_failure_nonfatal [OF a b c d e f, of "''/weather''" 1000 cache_initial]
  show ?thesis
    by (simp add: weather_routes cold_cache_stale forecast_field_def cut_periods_def
        scripted_def str_nat.simps)
qed

text \<open>
  C2, as the specification words it, fails on the station list: the points call
  succeeded and yielded a forecast URL, the request for the station list meets a network
  error, and the fetch fails with it; the response is 502.
\<close>

theorem station_list_failure_counterexample:
  "fetch_points (scripted config_ok [points_ok, forecast14]) 0 =
     (Inr (JStr ''F'', JStr ''S'', request_headers ''ops@example.com''), 1) \<and>
   make_request (scripted config_ok [points_ok, forecast14]) 2 (JStr ''S'')
       (request_headers ''ops@example.com'') =
     (Inl (URLError ''HTTP Error 404: Not Found''), 3) \<and>
   fetch_from_nws (scripted config_ok [points_ok, forecast14]) 0 =
     (Inl (URLError ''HTTP Error 404: Not Found''), 3) \<and>
   do_GET (scripted config_ok [points_ok, forecast14]) ''/weather'' 1000 (cache_initial, 0) =
     (Inr (SendError 502 ''Upstream request failed: HTTP Error 404: Not Found''), cache_initial, 3)"
proof -
  have "fetch_points (scripted config_ok [points_ok, forecast14]) 0 =
     (Inr (JStr ''F'', JStr ''S'', request_headers ''ops@example.com''), 1)"
    using fetch_points_scripted [of "[forecast14]" 0] by simp
  moreover have "make_request (scripted config_ok [points_ok, forecast14]) 2 (JStr ''S'')
       (request_headers ''ops@example.com'') =
     (Inl (URLError ''HTTP Error 404: Not Found''), 3)"
    by (simp add: scripted_defs make_request_def)
  moreover have "do_GET (scripted config_ok [points_ok, forecast14]) ''/weather'' 1000 (cache_initial, 0) =
     (Inr (SendError 502 ''Upstream request failed: HTTP Error 404: Not Found''), cache_initial, 3)"
    by (simp add: do_GET_def weather_routes get_cached_weather_miss cold_cache_stale
        fetch_stations_down)
  ultimately show ?thesis by (simp add: fetch_stations_down)
qed

section \<open>The shape of the payload\<close>

text \<open>
  C10. Every successful run of the fetch pipeline returns a mapping with exactly the two
  keys \<open>forecast\<close> and \<open>observation\<close>. The run obtained its URLs from the points step, an
  object \<open>fd\<close> as the forecast response, and a value \<open>observation\<close> from the observation
  step, which is null or the body of the response to a request. \<open>forecast\<close> is the
  \<open>properties\<close> of the forecast response (with the periods cut), an empty mapping when
  the response has none; \<open>observation\<close> is the \<open>properties\<close> of the observation
  response when that response is an object, and null in every other case.
\<close>

theorem payload_shape:
  assumes "fetch_from_nws os w = (Inr payload, w')"
  shows "\<exists>forecast_url stations_url headers w1 fd w2 observation.
     fetch_points os w = (Inr (forecast_url, stations_url, headers), w1) \<and>
     make_request os w1 forecast_url headers = (Inr (JObj fd), w2) \<and>
     fetch_observation os w2 stations_url headers = (Inr observation, w') \<and>
     (observation = JNull \<or> (\<exists>u w3. make_request os w3 (JStr u) headers = (Inr observation, w'))) \<and>
     payload = JObj [(''forecast'', forecast_field fd), (''observation'', observation_field observation)]"
proof -
  from fetch_from_nws_success [OF assms]
  obtain forecast_url stations_url headers w1 forecast_data w2 forecast_data' observation
    where p: "fetch_points os w = (Inr (forecast_url, stations_url, headers), w1)"
      and f: "make_request os w1 forecast_url headers = (Inr forecast_data, w2)"
      and t: "trim_forecast forecast_data = Inr forecast_data'"
      and o: "fetch_observation os w2 stations_url headers = (Inr observation, w')"
      and b: "build_payload forecast_data' observation = Inr payload"
    by blast
  from trim_forecast_field [OF t] obtain fd where fd: "forecast_data = JObj fd" by blast
  from b t fd have "payload = JObj [(''forecast'', forecast_field fd), (''observation'', observation_field observation)]"
    by (simp add: build_payload_fields)
  with p f o fd fetch_observation_source [OF o] show ?thesis by blast
qed

text \<open>
  A run in which the observation request succeeds and returns a list, not an object:
  the observation of the payload is null.
\<close>

theorem payload_shape_witness:
  "fetch_from_nws (scripted config_ok [points_ok, forecast14, stations_ok, observation_not_object]) 0 =
     (Inr (JObj [(''forecast'', JObj [(''units'', JStr ''us''),
                   (''periods'', JArr [JInt 1, JInt 2, JInt 3, JInt 4, JInt 5, JInt 6])]),
                 (''observation'', JNull)]), 4) \<and>
   (\<exists>fd observation.
      make_request (scripted config_ok [points_ok, forecast14, stations_ok, observation_not_object])
        1 (JStr ''F'') (request_headers ''ops@example.com'') = (Inr (JObj fd), 2) \<and>
      fetch_observation (scripted config_ok [points_ok, forecast14, stations_ok, observation_not_object])
        2 (JStr ''S'') (request_headers ''ops@example.com'') = (Inr observation, 4) \<and>
      observation = JArr [JInt 20] \<and>
      JObj [(''forecast'', JObj [(''units'', JStr ''us''),
                   (''periods'', JArr [JInt 1, JInt 2, JInt 3, JInt 4, JInt 5, JInt 6])]),
            (''observation'', JNull)] =
      JObj [(''forecast'', forecast_field fd), (''observation'', observation_field observation)])"
proof -
  let ?os = "scripted config_ok [points_ok, forecast14, stations_ok, observation_not_object]"
  let ?h = "request_headers ''ops@example.com''"
  let ?P = "JObj [(''forecast'', JObj [(''units'', JStr ''us''),
                   (''periods'', JArr [JInt 1, JInt 2, JInt 3, JInt 4, JInt 5, JInt 6])]),
                 (''observation'', JNull)]"
  have r: "fetch_from_nws ?os 0 = (Inr ?P, 4)"
    by (simp add: scripted_defs pipeline_defs)
  have a: "fetch_points ?os 0 = (Inr (JStr ''F'', JStr ''S'', ?h), 1)"
    using fetch_points_scripted [of "[forecast14, stations_ok, observation_not_object]" 0] by simp
  have o: "fetch_observation ?os 2 (JStr ''S'') ?h = (Inr (JArr [JInt 20]), 4)"
    by (simp add: scripted_defs fetch_observation_def make_request_def py_get_def py_or_def)
  from payload_shape [OF r] obtain forecast_url stations_url headers w1 fd w2 observation
    where p: "fetch_points ?os 0 = (Inr (forecast_url, stations_url, headers), w1)"
      and f: "make_request ?os w1 forecast_url headers = (Inr (JObj fd), w2)"
      and ob: "fetch_observation ?os w2 stations_url headers = (Inr observation, 4)"
      and pl: "?P = JObj [(''forecast'', forecast_field fd), (''observation'', observation_field observation)]"
    by blast
  from p a have eq: "forecast_url = JStr ''F''" "stations_url = JStr ''S''" "headers = ?h" "w1 = 1"
    by simp_all
  have "make_request ?os 1 (JStr ''F'') ?h = (Inr (JObj fd), w2)"
    using f by (simp only: eq)
  moreover have "\<And>x. snd (make_request ?os 1 (JStr ''F'') ?h) = 2"
    by (simp add: scripted_def make_request_def)
  ultimately have w2: "w2 = 2" by simp
  from ob o have "observation = JArr [JInt 20]" by (simp add: eq w2)
  with f ob pl eq w2 r show ?thesis by auto
qed

section \<open>Cache hits and refreshes\<close>

text \<open>
  C4. The lifetime of an entry is 300 seconds. A call made when an entry exists and
  \<open>now - fetchedAt < TTL\<close> returns the cached payload and leaves the cache and the world
  as they are: the fetch pipeline is not run and nothing is sent. A call made when no
  entry exists or \<open>now - fetchedAt \<ge> TTL\<close> runs the fetch pipeline: its outcome and the
  world afterwards are those of the pipeline, and on success the payload is stored with
  the timestamp \<open>now\<close> and returned.
\<close>

theorem cache_hit_or_refresh:
  "CACHE_TTL = 300 \<and>
   (cache_payload c \<noteq> JNull \<and> now - cache_timestamp c < CACHE_TTL \<longrightarrow>
      get_cached_weather os now (c, w) = (Inr (cache_payload c), c, w)) \<and>
   (cache_payload c = JNull \<or> now - cache_timestamp c \<ge> CACHE_TTL \<longrightarrow>
      fst (get_cached_weather os now (c, w)) = fst (fetch_from_nws os w) \<and>
      snd (snd (get_cached_weather os now (c, w))) = snd (fetch_from_nws os w) \<and>
      (\<forall>payload w'. fetch_from_nws os w = (Inr payload, w') \<longrightarrow>
         get_cached_weather os now (c, w) =
           (Inr payload, \<lparr>cache_payload = payload, cache_timestamp = now\<rparr>, w')))"
  by (auto simp: get_cached_weather_def cache_fresh_def CACHE_TTL_def split: prod.splits sum.splits)

text \<open>
  An entry fetched at 1000: a call at 1299 is served from the cache while the upstream is
  down; a call at 1300 fetches again and stores the new payload with the timestamp 1300.
\<close>

theorem cache_hit_or_refresh_witness:
  "get_cached_weather (scripted config_ok []) 1299
     (\<lparr>cache_payload = JObj [(''forecast'', JObj []), (''observation'', JNull)],
       cache_timestamp = 1000\<rparr>, 0) =
     (Inr (JObj [(''forecast'', JObj []), (''observation'', JNull)]),
      \<lparr>cache_payload = JObj [(''forecast'', JObj []), (''observation'', JNull)],
       cache_timestamp = 1000\<rparr>, 0) \<and>
   get_cached_weather (scripted config_ok [points_ok, forecast14, stations_ok, observation_ok]) 1300
     (\<lparr>cache_payload = JObj [(''forecast'', JObj []), (''observation'', JNull)],
       cache_timestamp = 1000\<rparr>, 0) =
     (Inr (JObj [(''forecast'', JObj [(''units'', JStr ''us''),
                   (''periods'', JArr [JInt 1, JInt 2, JInt 3, JInt 4, JInt 5, JInt 6])]),
                 (''observation'', JObj [(''temperature'', JInt 20)])]),
      \<lparr>cache_payload = JObj [(''forecast'', JObj [(''units'', JStr ''us''),
                   (''periods'', JArr [JInt 1, JInt 2, JInt 3, JInt 4, JInt 5, JInt 6])]),
                 (''observation'', JObj [(''temperature'', JInt 20)])],
       cache_timestamp = 1300\<rparr>, 4)"
  using cache_hit_or_refresh
      [of "\<lparr>cache_payload = JObj [(''forecast'', JObj []), (''observation'', JNull)],
            cache_timestamp = 1000\<rparr>"
          1299 "scripted config_ok []" 0]
    cache_hit_or_refresh
      [of "\<lparr>cache_payload = JObj [(''forecast'', JObj []), (''observation'', JNull)],
            cache_timestamp = 1000\<rparr>"
          1300 "scripted config_ok [points_ok, forecast14, stations_ok, observation_ok]" 0]
  by (simp add: fetch_all_ok)

section \<open>Failed fetches\<close>

text \<open>
  C5. For every call whose fetch fails, the stored entry, payload and timestamp, is left
  as it was, and the caller gets the exception the pipeline raised. No error is stored:
  a later call on the entry left behind (any call, when the cache is empty; a call whose
  clock reading is not before that of the failed one, when the entry is stale) finds it
  stale again and runs the fetch pipeline, whatever the world is by then.
\<close>

theorem failed_fetch_not_cached:
  assumes "\<not> cache_fresh now c"
    and "fetch_from_nws os w = (Inl e, w')"
  shows "get_cached_weather os now (c, w) = (Inl e, c, w') \<and>
         (\<forall>now' w2. cache_payload c = JNull \<or> now \<le> now' \<longrightarrow>
            \<not> cache_fresh now' c \<and>
            fst (get_cached_weather os now' (c, w2)) = fst (fetch_from_nws os w2) \<and>
            snd (snd (get_cached_weather os now' (c, w2))) = snd (fetch_from_nws os w2))"
  using assms
  by (auto simp: get_cached_weather_def cache_fresh_def split: prod.splits sum.splits)

text \<open>
  An entry fetched at 1000 and an upstream that is down: the call at 1300 fails and
  leaves the entry; the call at 1301 sends a request again.
\<close>

theorem failed_fetch_not_cached_witness:
  "get_cached_weather (scripted config_ok []) 1300
     (\<lparr>cache_payload = JObj [(''forecast'', JObj []), (''observation'', JNull)],
       cache_timestamp = 1000\<rparr>, 0) =
     (Inl (URLError ''HTTP Error 404: Not Found''),
      \<lparr>cache_payload = JObj [(''forecast'', JObj []), (''observation'', JNull)],
       cache_timestamp = 1000\<rparr>, 1) \<and>
   fst (get_cached_weather (scripted config_ok []) 1301
     (\<lparr>cache_payload = JObj [(''forecast'', JObj []), (''observation'', JNull)],
       cache_timestamp = 1000\<rparr>, 1)) = Inl (URLError ''HTTP Error 404: Not Found'') \<and>
   snd (snd (get_cached_weather (scripted config_ok []) 1301
     (\<lparr>cache_payload = JObj [(''forecast'', JObj []), (''observation'', JNull)],
       cache_timestamp = 1000\<rparr>, 1))) = 2"
proof -
  let ?c = "\<lparr>cache_payload = JObj [(''forecast'', JObj []), (''observation'', JNull)],
       cache_timestamp = 1000\<rparr>"
  have a: "\<not> cache_fresh 1300 ?c"
    by (simp add: cache_fresh_def CACHE_TTL_def)
  have b: "fetch_from_nws (scripted config_ok []) 0 = (Inl (URLError ''HTTP Error 404: Not Found''), 1)"
    using fetch_upstream_down [of 0] by simp
  from failed_fetch_not_cached [OF a b]
  have "get_cached_weather (scripted config_ok []) 1300 (?c, 0) =
      (Inl (URLError ''HTTP Error 404: Not Found''), ?c, 1)"
    and "fst (get_cached_weather (scripted config_ok []) 1301 (?c, 1)) =
      fst (fetch_from_nws (scripted config_ok []) 1)"
    and "snd (snd (get_cached_weather (scripted config_ok []) 1301 (?c, 1))) =
      snd (fetch_from_nws (scripted config_ok []) 1)"
    by simp_all
  then show ?thesis by (simp add: fetch_upstream_down)
qed

section \<open>Errors of the pipeline in the response\<close>

text \<open>
  C6, as the code has it. For every request on the weather route whose
  \<open>_get_cached_weather()\<close> fails, the exception is the one the fetch pipeline raised and
  the cache entry is untouched: the cache wraps and alters nothing. When the exception is
  a \<open>ProxyError\<close> (a missing \<open>config.json\<close>, missing coordinates, a missing forecast
  URL), the handler calls \<open>send_error(502, message)\<close> with the message of the error as it
  is. When it is a \<open>URLError\<close>, a \<open>TimeoutError\<close> or a \<open>ValueError\<close>, the handler calls
  \<open>send_error(502, message)\<close> with the message of the error after the words
  \<open>Upstream request failed: \<close>. An exception of any other class is taken by no
  \<open>except\<close> clause: it leaves \<open>do_GET\<close> and the handler sends no 502. The statement
  ends at the call of \<open>send_error\<close>; the page \<open>http.server\<close> makes of it is not part
  of it.
\<close>

theorem proxy_error_502:
  assumes "rstrip_slash path \<in> {'''', ''/weather''}"
    and "get_cached_weather os now (c, w) = (Inl e, c', w')"
  shows "fetch_from_nws os w = (Inl e, w') \<and> c' = c \<and>
         (\<forall>msg. e = ProxyError msg \<longrightarrow>
            do_GET os path now (c, w) = (Inr (SendError 502 msg), c', w')) \<and>
         (\<forall>msg. e = URLError msg \<or> e = TimeoutError msg \<or> e = ValueError msg \<longrightarrow>
            do_GET os path now (c, w) =
              (Inr (SendError 502 (''Upstream request failed: '' @ msg)), c', w')) \<and>
         (e \<notin> range ProxyError \<union> range URLError \<union> range TimeoutError \<union> range ValueError \<longrightarrow>
            do_GET os path now (c, w) = (Inl e, c', w'))"
proof -
  have "fetch_from_nws os w = (Inl e, w') \<and> c' = c"
    using assms(2)
    by (auto simp: get_cached_weather_def split: prod.splits sum.splits if_splits)
  moreover have "\<forall>msg. e = ProxyError msg \<longrightarrow>
      do_GET os path now (c, w) = (Inr (SendError 502 msg), c', w')"
    using assms by (simp add: do_GET_def)
  moreover have "\<forall>msg. e = URLError msg \<or> e = TimeoutError msg \<or> e = ValueError msg \<longrightarrow>
      do_GET os path now (c, w) =
        (Inr (SendError 502 (''Upstream request failed: '' @ msg)), c', w')"
    using assms by (auto simp: do_GET_def)
  moreover have "e \<notin> range ProxyError \<union> range URLError \<union> range TimeoutError \<union> range ValueError \<longrightarrow>
      do_GET os path now (c, w) = (Inl e, c', w')"
    using assms by (cases e) (auto simp: do_GET_def)
  ultimately show ?thesis by blast
qed

text \<open>
  A points response without a forecast URL, a missing \<open>config.json\<close>, and an upstream
  that is down.
\<close>

theorem proxy_error_502_witness:
  "do_GET (scripted config_ok [points_without_forecast, forecast14, stations_ok]) ''/weather/'' 1000
      (cache_initial, 0) =
     (Inr (SendError 502 ''Forecast URL unavailable for configured coordinates''), cache_initial, 1) \<and>
   do_GET (scripted None []) ''/'' 1000 (cache_initial, 0) =
     (Inr (SendError 502 ''config.json not found alongside weather_proxy.py''), cache_initial, 0) \<and>
   do_GET (scripted config_ok []) ''/weather'' 1000 (cache_initial, 0) =
     (Inr (SendError 502 ''Upstream request failed: HTTP Error 404: Not Found''), cache_initial, 1)"
proof -
  have a: "rstrip_slash ''/weather/'' \<in> {'''', ''/weather''}"
    and b: "rstrip_slash ''/'' \<in> {'''', ''/weather''}"
    and b': "rstrip_slash ''/weather'' \<in> {'''', ''/weather''}"
    by (simp_all add: weather_routes)
  have c: "get_cached_weather (scripted config_ok [points_without_forecast, forecast14, stations_ok])
      1000 (cache_initial, 0) =
      (Inl (ProxyError ''Forecast URL unavailable for configured coordinates''), cache_initial, 1)"
    by (simp add: get_cached_weather_miss cold_cache_stale fetch_without_forecast_url)
  have d: "get_cached_weather (scripted None []) 1000 (cache_initial, 0) =
      (Inl (ProxyError ''config.json not found alongside weather_proxy.py''), cache_initial, 0)"
    by (simp add: get_cached_weather_miss cold_cache_stale fetch_config_missing)
  have e: "get_cached_weather (scripted config_ok []) 1000 (cache_initial, 0) =
      (Inl (URLError ''HTTP Error 404: Not Found''), cache_initial, 1)"
    by (simp add: get_cached_weather_miss cold_cache_stale fetch_upstream_down)
  from proxy_error_502 [OF a c] proxy_error_502 [OF b d] proxy_error_502 [OF b' e]
  show ?thesis by simp
qed

text \<open>
  C6, as the specification words it, fails on errors of other classes. With a
  \<open>config.json\<close> whose \<open>weather\<close> is null, line 51 raises \<open>AttributeError\<close>; with a
  points request on which the peer closes the connection, the required call fails with
  an exception the handler does not name. Either way the exception leaves \<open>do_GET\<close> and
  no 502 is sent.
\<close>

theorem uncaught_error_counterexample:
  "fetch_from_nws (scripted config_weather_null []) 0 = (Inl AttributeError, 0) \<and>
   do_GET (scripted config_weather_null []) ''/weather'' 1000 (cache_initial, 0) =
     (Inl AttributeError, cache_initial, 0) \<and>
   fetch_from_nws (scripted config_ok [points_disconnected]) 0 = (Inl OtherError, 1) \<and>
   do_GET (scripted config_ok [points_disconnected]) ''/weather'' 1000 (cache_initial, 0) =
     (Inl OtherError, cache_initial, 1)"
  by (simp add: do_GET_def weather_routes get_cached_weather_miss cold_cache_stale
      fetch_weather_null fetch_points_disconnected)

section \<open>Properties of concurrent callers\<close>

lemma lock_discipline:
  assumes "rtranclp (step os clock) (initial n w0) s"
  shows "length (callers s) = n \<and>
         (\<forall>i j. i < n \<and> j < n \<and> is_running (callers s ! i) \<and> is_running (callers s ! j) \<longrightarrow> i = j) \<and>
         (\<not> lock_held s \<longrightarrow> (\<forall>i<n. \<not> is_running (callers s ! i))) \<and>
         (lock_held s \<longrightarrow> (\<exists>i<n. is_running (callers s ! i)))"
  using assms
proof (induction rule: rtranclp_induct)
  case base
  show ?case by (auto simp: initial_def)
next
  case (step s s')
  from step.IH have len: "length (callers s) = n"
    and uniq: "\<And>i j. i < n \<Longrightarrow> j < n \<Longrightarrow> is_running (callers s ! i) \<Longrightarrow> is_running (callers s ! j) \<Longrightarrow> i = j"
    and free: "\<not> lock_held s \<Longrightarrow> \<forall>i<n. \<not> is_running (callers s ! i)"
    by blast+
  from step.hyps(2) show ?case
  proof cases
    case (acquire i now)
    have cs: "callers s' = (callers s)[i := Running now]" and lk: "lock_held s'"
      by (simp_all add: acquire(1))
    have run: "\<And>j. j < n \<Longrightarrow> is_running (callers s' ! j) \<longleftrightarrow> j = i"
      using free acquire(2,4) len by (auto simp: cs nth_list_update)
    have i: "i < n" using acquire(2) len by simp
    have "length (callers s') = n" by (simp add: cs len)
    moreover have "\<forall>j k. j < n \<and> k < n \<and> is_running (callers s' ! j) \<and> is_running (callers s' ! k) \<longrightarrow> j = k"
      using run by blast
    moreover have "\<exists>j<n. is_running (callers s' ! j)"
      using run i by blast
    ultimately show ?thesis using lk by blast
  next
    case (release i now r c' w')
    have cs: "callers s' = (callers s)[i := Done r]" and lk: "\<not> lock_held s'"
      by (simp_all add: release(1))
    have i: "i < n" using release(2) len by simp
    have ri: "is_running (callers s ! i)" by (simp add: release(3))
    have "\<And>j. j < n \<Longrightarrow> j \<noteq> i \<Longrightarrow> \<not> is_running (callers s ! j)"
      using uniq [OF _ i _ ri] by blast
    then have run: "\<And>j. j < n \<Longrightarrow> \<not> is_running (callers s' ! j)"
      using len release(2) by (auto simp: cs nth_list_update)
    have "length (callers s') = n" by (simp add: cs len)
    with run lk show ?thesis by blast
  qed
qed

lemma single_fetch:
  assumes reach: "rtranclp (step os clock) (initial n w0) s"
    and window: "\<forall>t t'. clock t \<and> clock t' \<longrightarrow> t' - t < CACHE_TTL"
    and ok: "fetch_from_nws os w0 = (Inr payload, w1)"
  shows "(\<forall>i<n. \<forall>t. callers s ! i = Running t \<longrightarrow> clock t) \<and>
         (fetches s = 0 \<and> globals s = cache_initial \<and> world s = w0 \<and>
            (\<forall>i<n. \<not> is_done (callers s ! i)) \<or>
          fetches s = 1 \<and> world s = w1 \<and>
            (\<exists>t0. clock t0 \<and> globals s = \<lparr>cache_payload = payload, cache_timestamp = t0\<rparr>) \<and>
            (\<forall>i<n. \<forall>r. callers s ! i = Done r \<longrightarrow> r = Inr payload))"
  using reach
proof (induction rule: rtranclp_induct)
  case base
  show ?case by (auto simp: initial_def)
next
  case (step s s')
  from lock_discipline [OF step.hyps(1)] have len: "length (callers s) = n" by simp
  from step.IH have clk: "\<And>j t. j < n \<Longrightarrow> callers s ! j = Running t \<Longrightarrow> clock t" by blast
  from step.IH have state:
    "fetches s = 0 \<and> globals s = cache_initial \<and> world s = w0 \<and>
       (\<forall>i<n. \<not> is_done (callers s ! i)) \<or>
     fetches s = 1 \<and> world s = w1 \<and>
       (\<exists>t0. clock t0 \<and> globals s = \<lparr>cache_payload = payload, cache_timestamp = t0\<rparr>) \<and>
       (\<forall>i<n. \<forall>r. callers s ! i = Done r \<longrightarrow> r = Inr payload)"
    by blast
  from step.hyps(2) show ?case
  proof cases
    case (acquire i now)
    have cs: "callers s' = (callers s)[i := Running now]"
      and same: "fetches s' = fetches s" "globals s' = globals s" "world s' = world s"
      by (simp_all add: acquire(1))
    have run: "\<forall>j<n. \<forall>t. callers s' ! j = Running t \<longrightarrow> clock t"
      using clk acquire(2,5) len by (auto simp: cs nth_list_update)
    have dn: "\<And>j r. j < n \<Longrightarrow> callers s' ! j = Done r \<longleftrightarrow> callers s ! j = Done r"
      using acquire(2,3) len by (auto simp: cs nth_list_update)
    have dn': "\<And>j. j < n \<Longrightarrow> is_done (callers s' ! j) \<longleftrightarrow> is_done (callers s ! j)"
      using acquire(2,3) len by (auto simp: cs nth_list_update)
    from state show ?thesis
    proof
      assume "fetches s = 0 \<and> globals s = cache_initial \<and> world s = w0 \<and>
        (\<forall>i<n. \<not> is_done (callers s ! i))"
      then have "fetches s' = 0 \<and> globals s' = cache_initial \<and> world s' = w0 \<and>
        (\<forall>i<n. \<not> is_done (callers s' ! i))"
        by (simp add: same dn')
      with run show ?thesis by blast
    next
      assume "fetches s = 1 \<and> world s = w1 \<and>
        (\<exists>t0. clock t0 \<and> globals s = \<lparr>cache_payload = payload, cache_timestamp = t0\<rparr>) \<and>
        (\<forall>i<n. \<forall>r. callers s ! i = Done r \<longrightarrow> r = Inr payload)"
      then have "fetches s' = 1 \<and> world s' = w1 \<and>
        (\<exists>t0. clock t0 \<and> globals s' = \<lparr>cache_payload = payload, cache_timestamp = t0\<rparr>) \<and>
        (\<forall>i<n. \<forall>r. callers s' ! i = Done r \<longrightarrow> r = Inr payload)"
        by (simp add: same dn)
      with run show ?thesis by blast
    qed
  next
    case (release i now r c' w')
    have cs: "callers s' = (callers s)[i := Done r]"
      and fs: "fetches s' = fetches s + (if cache_fresh now (globals s) then 0 else 1)"
      and gs: "globals s' = c'" and ws: "world s' = w'"
      by (simp_all add: release(1))
    have i: "i < n" using release(2) len by simp
    have now: "clock now" using clk [OF i release(3)] .
    have run: "\<forall>j<n. \<forall>t. callers s' ! j = Running t \<longrightarrow> clock t"
      using clk release(2) len by (auto simp: cs nth_list_update)
    have dn: "\<And>j r'. j < n \<Longrightarrow> callers s' ! j = Done r' \<Longrightarrow> r' = r \<or> callers s ! j = Done r'"
      using release(2) len by (auto simp: cs nth_list_update split: if_splits)
    from state have "fetches s' = 1 \<and> world s' = w1 \<and>
        (\<exists>t0. clock t0 \<and> globals s' = \<lparr>cache_payload = payload, cache_timestamp = t0\<rparr>) \<and>
        (\<forall>i<n. \<forall>r. callers s' ! i = Done r \<longrightarrow> r = Inr payload)"
    proof
      assume cold: "fetches s = 0 \<and> globals s = cache_initial \<and> world s = w0 \<and>
        (\<forall>i<n. \<not> is_done (callers s ! i))"
      then have stale: "\<not> cache_fresh now (globals s)"
        by (simp add: cache_fresh_def cache_initial_def)
      from cold have "get_cached_weather os now (globals s, world s) =
          (Inr payload, \<lparr>cache_payload = payload, cache_timestamp = now\<rparr>, w1)"
        using stale ok by (simp add: get_cached_weather_miss)
      with release(4)
      have g: "r = Inr payload" "c' = \<lparr>cache_payload = payload, cache_timestamp = now\<rparr>" "w' = w1"
        by simp_all
      have "fetches s' = 1" using cold stale by (simp add: fs)
      moreover have "world s' = w1" by (simp add: ws g)
      moreover have "\<exists>t0. clock t0 \<and> globals s' = \<lparr>cache_payload = payload, cache_timestamp = t0\<rparr>"
        using now gs g(2) by blast
      moreover have "\<forall>j<n. \<forall>r'. callers s' ! j = Done r' \<longrightarrow> r' = Inr payload"
      proof (intro allI impI)
        fix j r' assume j: "j < n" and d: "callers s' ! j = Done r'"
        from dn [OF j d] cold j g(1) show "r' = Inr payload" by auto
      qed
      ultimately show ?thesis by blast
    next
      assume warm: "fetches s = 1 \<and> world s = w1 \<and>
        (\<exists>t0. clock t0 \<and> globals s = \<lparr>cache_payload = payload, cache_timestamp = t0\<rparr>) \<and>
        (\<forall>i<n. \<forall>r. callers s ! i = Done r \<longrightarrow> r = Inr payload)"
      then obtain t0 where t0: "clock t0"
        and g0: "globals s = \<lparr>cache_payload = payload, cache_timestamp = t0\<rparr>"
        by blast
      from window now t0 have "now - t0 < CACHE_TTL" by blast
      moreover have "payload \<noteq> JNull" using ok by (rule fetch_payload_not_null)
      ultimately have fresh: "cache_fresh now (globals s)"
        by (simp add: cache_fresh_def g0)
      have "get_cached_weather os now (globals s, world s) = (Inr payload, globals s, world s)"
        using get_cached_weather_hit [OF fresh] by (simp add: g0)
      with release(4) have g: "r = Inr payload" "c' = globals s" "w' = world s"
        by simp_all
      have "fetches s' = 1" using warm fresh by (simp add: fs)
      moreover have "world s' = w1" using warm by (simp add: ws g)
      moreover have "\<exists>t0. clock t0 \<and> globals s' = \<lparr>cache_payload = payload, cache_timestamp = t0\<rparr>"
        using t0 g0 gs g(2) by auto
      moreover have "\<forall>j<n. \<forall>r'. callers s' ! j = Done r' \<longrightarrow> r' = Inr payload"
      proof (intro allI impI)
        fix j r' assume j: "j < n" and d: "callers s' ! j = Done r'"
        from dn [OF j d] warm j g(1) show "r' = Inr payload" by auto
      qed
      ultimately show ?thesis by blast
    qed
    with run show ?thesis by blast
  qed
qed

lemma callers_progress:
  assumes reach: "rtranclp (step os clock) (initial n w0) s"
    and "clock t" and "i < n" and "\<not> is_done (callers s ! i)"
  shows "\<exists>s'. step os clock s s'"
proof -
  from lock_discipline [OF reach] have len: "length (callers s) = n"
    and free: "\<not> lock_held s \<Longrightarrow> \<forall>i<n. \<not> is_running (callers s ! i)"
    and held: "lock_held s \<Longrightarrow> \<exists>i<n. is_running (callers s ! i)"
    by blast+
  show ?thesis
  proof (cases "lock_held s")
    case True
    from held [OF True] obtain j where j: "j < n" and "is_running (callers s ! j)" by blast
    then obtain now where r: "callers s ! j = Running now"
      by (cases "callers s ! j") simp_all
    obtain r' c' w' where "get_cached_weather os now (globals s, world s) = (r', c', w')"
      by (cases "get_cached_weather os now (globals s, world s)") auto
    moreover have "j < length (callers s)" using j len by simp
    ultimately have "step os clock s
       (s\<lparr>lock_held := False, globals := c', world := w',
          callers := (callers s)[j := Done r'],
          fetches := fetches s + (if cache_fresh now (globals s) then 0 else 1)\<rparr>)"
      using r by (intro step.release)
    then show ?thesis ..
  next
    case False
    from free [OF False] assms(3) have "\<not> is_running (callers s ! i)" by blast
    with assms(4) have "callers s ! i = Waiting"
      by (cases "callers s ! i") simp_all
    moreover have "i < length (callers s)" using assms(3) len by simp
    ultimately have "step os clock s (s\<lparr>lock_held := True, callers := (callers s)[i := Running t]\<rparr>)"
      using False assms(2) by (intro step.acquire)
    then show ?thesis ..
  qed
qed

text \<open>
  C1, as the code has it. For any number \<open>n\<close> of callers of \<open>_get_cached_weather()\<close> that
  start together on a cold cache, in every state they can reach: at most one caller is
  inside the block at a time, so at most one run of the fetch pipeline is in flight; as
  long as a caller has not finished, some caller can take a step. If moreover every clock
  reading lies within one TTL window and the run of the fetch pipeline succeeds, the
  pipeline is run at most once; once a caller has finished it has been run exactly once,
  the world is the one that single run left, and every caller that has finished has
  received the payload of that run.
\<close>

theorem single_flight:
  assumes "rtranclp (step os clock) (initial n w0) s"
  shows "(\<forall>i j. i < n \<and> j < n \<and> is_running (callers s ! i) \<and> is_running (callers s ! j) \<longrightarrow> i = j) \<and>
         ((\<exists>t. clock t) \<and> (\<exists>i<n. \<not> is_done (callers s ! i)) \<longrightarrow> (\<exists>s'. step os clock s s')) \<and>
         ((\<forall>t t'. clock t \<and> clock t' \<longrightarrow> t' - t < CACHE_TTL) \<and>
          fetch_from_nws os w0 = (Inr payload, w1) \<longrightarrow>
            fetches s \<le> 1 \<and>
            (\<forall>i<n. \<forall>r. callers s ! i = Done r \<longrightarrow> r = Inr payload) \<and>
            ((\<exists>i<n. is_done (callers s ! i)) \<longrightarrow> fetches s = 1 \<and> world s = w1))"
proof (intro conjI impI)
  show "\<forall>i j. i < n \<and> j < n \<and> is_running (callers s ! i) \<and> is_running (callers s ! j) \<longrightarrow> i = j"
    using lock_discipline [OF assms] by blast
next
  assume "(\<exists>t. clock t) \<and> (\<exists>i<n. \<not> is_done (callers s ! i))"
  then show "\<exists>s'. step os clock s s'"
    using callers_progress [OF assms] by blast
next
  assume a: "(\<forall>t t'. clock t \<and> clock t' \<longrightarrow> t' - t < CACHE_TTL) \<and>
    fetch_from_nws os w0 = (Inr payload, w1)"
  then have w: "\<forall>t t'. clock t \<and> clock t' \<longrightarrow> t' - t < CACHE_TTL"
    and ok: "fetch_from_nws os w0 = (Inr payload, w1)" by blast+
  note inv = single_fetch [OF assms w ok]
  from inv show "fetches s \<le> 1" by auto
  from inv show "\<forall>i<n. \<forall>r. callers s ! i = Done r \<longrightarrow> r = Inr payload" by auto
  assume "\<exists>i<n. is_done (callers s ! i)"
  with inv show "fetches s = 1" by auto
  from inv \<open>\<exists>i<n. is_done (callers s ! i)\<close> show "world s = w1" by auto
qed

lemma step_acquireI:
  assumes "i < length (callers s)" and "callers s ! i = Waiting" and "\<not> lock_held s"
    and "clock now"
    and "s' = s\<lparr>lock_held := True, callers := (callers s)[i := Running now]\<rparr>"
  shows "step os clock s s'"
  unfolding assms(5) using assms(1-4) by (rule step.acquire)

lemma step_releaseI:
  assumes "i < length (callers s)" and "callers s ! i = Running now"
    and "get_cached_weather os now (globals s, world s) = (r, c', w')"
    and "s' = s\<lparr>lock_held := False, globals := c', world := w',
            callers := (callers s)[i := Done r],
            fetches := fetches s + (if cache_fresh now (globals s) then 0 else 1)\<rparr>"
  shows "step os clock s s'"
  unfolding assms(4) using assms(1-3) by (rule step.release)

lemma one_window_width: "\<forall>t t'. one_window t \<and> one_window t' \<longrightarrow> t' - t < CACHE_TTL"
  by (auto simp: one_window_def CACHE_TTL_def)

lemma initial_two:
  "initial 2 w = \<lparr>lock_held = False, globals = cache_initial, world = w,
     callers = [Waiting, Waiting], fetches = 0\<rparr>"
  by (simp add: initial_def numeral_2_eq_2)

lemma two_callers_served:
  "rtranclp (step (scripted config_ok [points_ok, forecast14, stations_ok, observation_ok]) one_window)
     (initial 2 0)
     \<lparr>lock_held = False,
      globals = \<lparr>cache_payload = JObj [(''forecast'', JObj [(''units'', JStr ''us''),
                   (''periods'', JArr [JInt 1, JInt 2, JInt 3, JInt 4, JInt 5, JInt 6])]),
                 (''observation'', JObj [(''temperature'', JInt 20)])], cache_timestamp = 1000\<rparr>,
      world = 4,
      callers = [Done (Inr (JObj [(''forecast'', JObj [(''units'', JStr ''us''),
                   (''periods'', JArr [JInt 1, JInt 2, JInt 3, JInt 4, JInt 5, JInt 6])]),
                 (''observation'', JObj [(''temperature'', JInt 20)])])),
                 Done (Inr (JObj [(''forecast'', JObj [(''units'', JStr ''us''),
                   (''periods'', JArr [JInt 1, JInt 2, JInt 3, JInt 4, JInt 5, JInt 6])]),
                 (''observation'', JObj [(''temperature'', JInt 20)])]))],
      fetches = 1\<rparr>"
proof -
  let ?os = "scripted config_ok [points_ok, forecast14, stations_ok, observation_ok]"
  let ?P = "JObj [(''forecast'', JObj [(''units'', JStr ''us''),
                   (''periods'', JArr [JInt 1, JInt 2, JInt 3, JInt 4, JInt 5, JInt 6])]),
                 (''observation'', JObj [(''temperature'', JInt 20)])]"
  let ?c = "\<lparr>cache_payload = ?P, cache_timestamp = 1000\<rparr>"
  let ?s1 = "\<lparr>lock_held = True, globals = cache_initial, world = 0::nat,
              callers = [Running 1000, Waiting], fetches = 0\<rparr>"
  let ?s2 = "\<lparr>lock_held = False, globals = ?c, world = 4::nat,
              callers = [Done (Inr ?P), Waiting], fetches = 1\<rparr>"
  let ?s3 = "\<lparr>lock_held = True, globals = ?c, world = 4::nat,
              callers = [Done (Inr ?P), Running 1200], fetches = 1\<rparr>"
  let ?s4 = "\<lparr>lock_held = False, globals = ?c, world = 4::nat,
              callers = [Done (Inr ?P), Done (Inr ?P)], fetches = 1\<rparr>"
  have a: "step ?os one_window (initial 2 0) ?s1"
    by (rule step_acquireI [where i = 0 and now = 1000]) (simp_all add: initial_two one_window_def)
  have g1: "get_cached_weather ?os 1000 (cache_initial, 0) = (Inr ?P, ?c, 4)"
    by (simp add: get_cached_weather_miss cold_cache_stale fetch_all_ok)
  have b: "step ?os one_window ?s1 ?s2"
  proof (rule step_releaseI [where i = 0 and now = 1000 and r = "Inr ?P" and c' = ?c and w' = 4])
    show "get_cached_weather ?os 1000 (globals ?s1, world ?s1) = (Inr ?P, ?c, 4)"
      using g1 by simp
  qed (simp_all add: cold_cache_stale)
  have c: "step ?os one_window ?s2 ?s3"
    by (rule step_acquireI [where i = 1 and now = 1200]) (simp_all add: one_window_def)
  have g2: "get_cached_weather ?os 1200 (?c, 4) = (Inr ?P, ?c, 4)"
    by (simp add: get_cached_weather_def cache_fresh_def CACHE_TTL_def)
  have d: "step ?os one_window ?s3 ?s4"
  proof (rule step_releaseI [where i = 1 and now = 1200 and r = "Inr ?P" and c' = ?c and w' = 4])
    show "get_cached_weather ?os 1200 (globals ?s3, world ?s3) = (Inr ?P, ?c, 4)"
      using g2 by simp
  qed (simp_all add: cache_fresh_def CACHE_TTL_def)
  show ?thesis
    using a b c d by (meson rtranclp.rtrancl_into_rtrancl rtranclp.rtrancl_refl)
qed

text \<open>
  Two callers, an upstream that answers, clock readings 1000 and 1200: both callers end
  with the same payload after one run of the pipeline, which sent four requests.
\<close>

theorem single_flight_witness:
  "rtranclp (step (scripted config_ok [points_ok, forecast14, stations_ok, observation_ok]) one_window)
     (initial 2 0)
     \<lparr>lock_held = False,
      globals = \<lparr>cache_payload = JObj [(''forecast'', JObj [(''units'', JStr ''us''),
                   (''periods'', JArr [JInt 1, JInt 2, JInt 3, JInt 4, JInt 5, JInt 6])]),
                 (''observation'', JObj [(''temperature'', JInt 20)])], cache_timestamp = 1000\<rparr>,
      world = 4,
      callers = [Done (Inr (JObj [(''forecast'', JObj [(''units'', JStr ''us''),
                   (''periods'', JArr [JInt 1, JInt 2, JInt 3, JInt 4, JInt 5, JInt 6])]),
                 (''observation'', JObj [(''temperature'', JInt 20)])])),
                 Done (Inr (JObj [(''forecast'', JObj [(''units'', JStr ''us''),
                   (''periods'', JArr [JInt 1, JInt 2, JInt 3, JInt 4, JInt 5, JInt 6])]),
                 (''observation'', JObj [(''temperature'', JInt 20)])]))],
      fetches = 1\<rparr> \<and>
   fetches
     \<lparr>lock_held = False,
      globals = \<lparr>cache_payload = JObj [(''forecast'', JObj [(''units'', JStr ''us''),
                   (''periods'', JArr [JInt 1, JInt 2, JInt 3, JInt 4, JInt 5, JInt 6])]),
                 (''observation'', JObj [(''temperature'', JInt 20)])], cache_timestamp = 1000\<rparr>,
      world = 4::nat,
      callers = [Done (Inr (JObj [(''forecast'', JObj [(''units'', JStr ''us''),
                   (''periods'', JArr [JInt 1, JInt 2, JInt 3, JInt 4, JInt 5, JInt 6])]),
                 (''observation'', JObj [(''temperature'', JInt 20)])])),
                 Done (Inr (JObj [(''forecast'', JObj [(''units'', JStr ''us''),
                   (''periods'', JArr [JInt 1, JInt 2, JInt 3, JInt 4, JInt 5, JInt 6])]),
                 (''observation'', JObj [(''temperature'', JInt 20)])]))],
      fetches = 1\<rparr> = 1 \<and>
   fetch_from_nws (scripted config_ok [points_ok, forecast14, stations_ok, observation_ok]) 0 =
     (Inr (JObj [(''forecast'', JObj [(''units'', JStr ''us''),
                   (''periods'', JArr [JInt 1, JInt 2, JInt 3, JInt 4, JInt 5, JInt 6])]),
                 (''observation'', JObj [(''temperature'', JInt 20)])]), 4)"
proof -
  let ?P = "JObj [(''forecast'', JObj [(''units'', JStr ''us''),
                   (''periods'', JArr [JInt 1, JInt 2, JInt 3, JInt 4, JInt 5, JInt 6])]),
                 (''observation'', JObj [(''temperature'', JInt 20)])]"
  have fin: "\<exists>i<2. is_done ([Done (Inr ?P), Done (Inr ?P)] ! i)"
    by (rule exI [of _ 0]) simp
  from single_flight [OF two_callers_served, of ?P 4] one_window_width fetch_all_ok fin
    two_callers_served
  show ?thesis by simp
qed

text \<open>
  C1, as the specification words it, fails when the upstream is down: two callers on a
  cold cache, clock readings 1000 and 1001, and the fetch pipeline is run twice, each
  caller sending its own points request and ending with its own error.
\<close>

theorem single_flight_failure_counterexample:
  "rtranclp (step (scripted config_ok []) one_window)
     (initial 2 0)
     \<lparr>lock_held = False, globals = cache_initial, world = 2,
      callers = [Done (Inl (URLError ''HTTP Error 404: Not Found'')),
                 Done (Inl (URLError ''HTTP Error 404: Not Found''))],
      fetches = 2\<rparr>"
proof -
  let ?os = "scripted config_ok []"
  let ?e = "Inl (URLError ''HTTP Error 404: Not Found'') :: exc + json"
  let ?s1 = "\<lparr>lock_held = True, globals = cache_initial, world = 0::nat,
              callers = [Running 1000, Waiting], fetches = 0\<rparr>"
  let ?s2 = "\<lparr>lock_held = False, globals = cache_initial, world = 1::nat,
              callers = [Done ?e, Waiting], fetches = 1\<rparr>"
  let ?s3 = "\<lparr>lock_held = True, globals = cache_initial, world = 1::nat,
              callers = [Done ?e, Running 1001], fetches = 1\<rparr>"
  let ?s4 = "\<lparr>lock_held = False, globals = cache_initial, world = 2::nat,
              callers = [Done ?e, Done ?e], fetches = 2\<rparr>"
  have g: "\<And>now w. get_cached_weather ?os now (cache_initial, w) = (?e, cache_initial, Suc w)"
    by (simp add: get_cached_weather_miss cold_cache_stale fetch_upstream_down)
  have a: "step ?os one_window (initial 2 0) ?s1"
    by (rule step_acquireI [where i = 0 and now = 1000]) (simp_all add: initial_two one_window_def)
  have b: "step ?os one_window ?s1 ?s2"
  proof (rule step_releaseI [where i = 0 and now = 1000 and r = ?e and c' = cache_initial and w' = 1])
    show "get_cached_weather ?os 1000 (globals ?s1, world ?s1) = (?e, cache_initial, 1)"
      using g [of 1000 0] by simp
  qed (simp_all add: cold_cache_stale)
  have c: "step ?os one_window ?s2 ?s3"
    by (rule step_acquireI [where i = 1 and now = 1001]) (simp_all add: one_window_def)
  have d: "step ?os one_window ?s3 ?s4"
  proof (rule step_releaseI [where i = 1 and now = 1001 and r = ?e and c' = cache_initial and w' = 2])
    show "get_cached_weather ?os 1001 (globals ?s3, world ?s3) = (?e, cache_initial, 2)"
      using g [of 1001 1] by simp
  qed (simp_all add: cold_cache_stale)
  show ?thesis
    using a b c d by (meson rtranclp.rtrancl_into_rtrancl rtranclp.rtrancl_refl)
qed

end
